theory Spec2Isabelle
  imports Main "HOL-Library.Monad_Syntax"
begin

section \<open>The Hello library (examples/hello/src/hello.c)\<close>

text \<open>
  A shallow embedding of \<^verbatim>\<open>hello.c\<close>: the thread-local error channel, the
  private helpers and the public greeter operations, over an explicit program state
  (the two thread-local variables, the heap and the allocator's coming answers).

  Conventions.
  \<^item> A \<^verbatim>\<open>const char *\<close> argument is a \<open>string option\<close>: \<open>None\<close> is the null
    pointer, \<open>Some s\<close> points to the bytes \<open>s\<close> followed by the terminating NUL, so
    \<open>strlen\<close> is \<open>length\<close>. A C string holds no NUL byte; theorems that read a
    buffer back as a C string say so (\<open>c_string_ok\<close>).
  \<^item> A writable \<^verbatim>\<open>char\<close> array (the error buffer, the caller's output buffer) is the
    list of its bytes; \<open>c_str\<close> reads the C string it holds.
  \<^item> \<^verbatim>\<open>int\<close> is the 32-bit two's complement integer of the platforms the library
    builds on; \<^verbatim>\<open>size_t\<close> values are lengths and capacities of objects that exist,
    and the code only compares them, so they are \<open>nat\<close>.
\<close>

subsection \<open>Constants\<close>

definition HELLO_VERSION :: string where
  "HELLO_VERSION = ''1.0.0''"

definition ERROR_BUFFER_SIZE :: nat where
  "ERROR_BUFFER_SIZE = 1024"

definition MAX_NAME_LENGTH :: nat where
  "MAX_NAME_LENGTH = 256"

text \<open>Defined by the source and used nowhere in it.\<close>

definition MAX_GREETING_LENGTH :: nat where
  "MAX_GREETING_LENGTH = 64"

definition INT_MAX :: int where
  "INT_MAX = 2147483647"

subsection \<open>The C library functions the code calls\<close>

definition NUL :: char where
  "NUL = CHR 0x00"

definition c_string_ok :: "string \<Rightarrow> bool" where
  "c_string_ok s = (NUL \<notin> set s)"

text \<open>The C string held by a byte array: the bytes before the first NUL.\<close>

definition c_str :: "char list \<Rightarrow> string" where
  "c_str buf = takeWhile (\<lambda>c. c \<noteq> NUL) buf"

text \<open>Writing bytes at the start of an array (\<^verbatim>\<open>memcpy\<close> to offset 0); the bytes
  behind them stay. The C contract is that the array is long enough.\<close>

definition store_bytes :: "char list \<Rightarrow> char list \<Rightarrow> char list" where
  "store_bytes buf bs = bs @ drop (length bs) buf"

text \<open>\<^verbatim>\<open>toupper\<close> in the "C" locale (the library never calls \<^verbatim>\<open>setlocale\<close>): the
  letters a..z (97..122) move to A..Z, every other byte stays.\<close>

definition toupper :: "char \<Rightarrow> char" where
  "toupper c = (let n = (of_char c :: nat) in if 97 \<le> n \<and> n \<le> 122 then char_of (n - 32) else c)"

text \<open>The value of an \<^verbatim>\<open>int\<close> expression that leaves the range: C leaves signed
  overflow undefined; the model takes the two's complement result. The only such
  expression in the code is \<^verbatim>\<open>written + 1\<close>, an argument of an error message.\<close>

definition wrap_int :: "int \<Rightarrow> int" where
  "wrap_int i = (i + 2147483648) mod 4294967296 - 2147483648"

text \<open>Decimal rendering, for the conversions \<^verbatim>\<open>%zu\<close> and \<^verbatim>\<open>%d\<close>.\<close>

definition digit_char :: "nat \<Rightarrow> char" where
  "digit_char d = char_of (48 + d)"

function dec_nat :: "nat \<Rightarrow> string" where
  "dec_nat n = (if n < 10 then [digit_char n] else dec_nat (n div 10) @ [digit_char (n mod 10)])"
  by pat_completeness auto
termination
  by (relation "measure (\<lambda>n. n)") auto

declare dec_nat.simps [simp del]

definition dec_int :: "int \<Rightarrow> string" where
  "dec_int i = (if i < 0 then CHR ''-'' # dec_nat (nat (- i)) else dec_nat (nat i))"

text \<open>
  \<^verbatim>\<open>snprintf(buf, size, fmt, ...)\<close>, given the array, the size \<open>sz\<close> and the text \<open>out\<close>
  that the format renders to. With \<open>sz > 0\<close> it stores the first \<open>sz - 1\<close> bytes
  of \<open>out\<close> and a NUL; it returns the length of the whole of \<open>out\<close>, or a negative
  value when that length is not an \<^verbatim>\<open>int\<close> (EOVERFLOW). The formats of this library
  have only \<^verbatim>\<open>%s\<close>, \<^verbatim>\<open>%d\<close> and \<^verbatim>\<open>%zu\<close> conversions, so there is no other failure.
  What the array holds after a failure is not specified by the standard; the model
  keeps the truncated text, as glibc does.
\<close>

definition c_snprintf :: "char list \<Rightarrow> nat \<Rightarrow> string \<Rightarrow> int \<times> char list" where
  "c_snprintf buf sz out =
     (if int (length out) > INT_MAX then - 1 else int (length out),
      if sz = 0 then buf else store_bytes buf (take (sz - 1) out @ [NUL]))"

subsection \<open>Program state\<close>

type_synonym addr = nat

text \<open>\<^verbatim>\<open>struct Hello_Greeter\<close>: two owned heap strings and a flag.\<close>

record Hello_Greeter =
  name :: "addr option"
  greeting :: "addr option"
  uppercase :: bool

text \<open>A heap cell: free, a \<^verbatim>\<open>char\<close> block holding a C string, or a greeter struct.\<close>

datatype cell = Free | Str string | Greeter Hello_Greeter

text \<open>
  The state: the thread-local error buffer and flag of the calling thread, the heap
  (the address of a block is its index), and the answers the allocator will give to
  the coming \<^verbatim>\<open>malloc\<close>/\<^verbatim>\<open>calloc\<close> calls (\<open>False\<close>: out of memory; when the list is
  used up every call succeeds).
\<close>

record state =
  g_error_buffer :: "char list"
  g_has_error :: bool
  heap :: "cell list"
  alloc_plan :: "bool list"

definition cell_at :: "state \<Rightarrow> addr \<Rightarrow> cell" where
  "cell_at s a = (if a < length (heap s) then heap s ! a else Free)"

text \<open>Whether the next allocation succeeds, and \<^verbatim>\<open>malloc\<close>/\<^verbatim>\<open>calloc\<close> of a block that
  will hold \<open>c\<close>: a new address, or null. Either way one answer of the plan is used.\<close>

definition alloc_succeeds :: "state \<Rightarrow> bool" where
  "alloc_succeeds s = (case alloc_plan s of [] \<Rightarrow> True | ok # _ \<Rightarrow> ok)"

definition alloc :: "cell \<Rightarrow> state \<Rightarrow> addr option \<times> state" where
  "alloc c s =
     (if alloc_succeeds s then
        (Some (length (heap s)), s\<lparr>heap := heap s @ [c], alloc_plan := tl (alloc_plan s)\<rparr>)
      else (None, s\<lparr>alloc_plan := tl (alloc_plan s)\<rparr>))"

text \<open>\<^verbatim>\<open>free(p)\<close>: nothing for the null pointer.\<close>

definition c_free :: "addr option \<Rightarrow> state \<Rightarrow> state" where
  "c_free p s = (case p of None \<Rightarrow> s | Some a \<Rightarrow> s\<lparr>heap := (heap s)[a := Free]\<rparr>)"

text \<open>Dereferencing: \<open>None\<close> when the pointer is null or does not point to a live
  object of the right kind (undefined behaviour in C).\<close>

definition read_greeter :: "state \<Rightarrow> addr \<Rightarrow> Hello_Greeter option" where
  "read_greeter s a = (case cell_at s a of Greeter g \<Rightarrow> Some g | _ \<Rightarrow> None)"

definition read_str :: "state \<Rightarrow> addr option \<Rightarrow> string option" where
  "read_str s p =
     (case p of None \<Rightarrow> None
      | Some a \<Rightarrow> (case cell_at s a of Str x \<Rightarrow> Some x | _ \<Rightarrow> None))"

subsection \<open>Thread-local error handling\<close>

text \<open>\<open>hello_set_error\<close> takes the text its format and arguments render to.\<close>

definition hello_set_error :: "string \<Rightarrow> state \<Rightarrow> state" where
  "hello_set_error msg s =
     s\<lparr>g_error_buffer := snd (c_snprintf (g_error_buffer s) ERROR_BUFFER_SIZE msg),
       g_has_error := True\<rparr>"

definition hello_get_last_error :: "state \<Rightarrow> string" where
  "hello_get_last_error s = (if g_has_error s then c_str (g_error_buffer s) else [])"

definition hello_has_error :: "state \<Rightarrow> bool" where
  "hello_has_error s = g_has_error s"

definition hello_clear_error :: "state \<Rightarrow> state" where
  "hello_clear_error s =
     s\<lparr>g_has_error := False, g_error_buffer := (g_error_buffer s)[0 := NUL]\<rparr>"

subsection \<open>Private functions\<close>

text \<open>\<open>safe_strdup\<close>: \<^verbatim>\<open>malloc(len + 1)\<close> and \<^verbatim>\<open>memcpy\<close> of the string with its
  terminator, that is a new block holding the string; null for a null argument (no
  error set) and when the allocation fails (error set).\<close>

definition safe_strdup :: "string option \<Rightarrow> state \<Rightarrow> addr option \<times> state" where
  "safe_strdup str s =
     (case str of
        None \<Rightarrow> (None, s)
      | Some x \<Rightarrow>
          (let len = length x; (copy, s1) = alloc (Str x) s in
           case copy of
             None \<Rightarrow>
               (None, hello_set_error (''Failed to allocate string of length '' @ dec_nat len) s1)
           | Some c \<Rightarrow> (Some c, s1)))"

text \<open>\<open>str_to_upper\<close> on a non-null array: the loop runs up to the first NUL. (The
  empty list is the end of an array that holds no NUL, where the C loop would leave
  the array.)\<close>

fun str_to_upper :: "char list \<Rightarrow> char list" where
  "str_to_upper [] = []"
| "str_to_upper (c # cs) = (if c = NUL then c # cs else toupper c # str_to_upper cs)"

definition validate_name :: "string option \<Rightarrow> state \<Rightarrow> bool \<times> state" where
  "validate_name nm s =
     (case nm of
        None \<Rightarrow> (False, hello_set_error ''Name cannot be NULL'' s)
      | Some x \<Rightarrow>
          (let len = length x in
           if len = 0 then (False, hello_set_error ''Name cannot be empty'' s)
           else if len \<ge> MAX_NAME_LENGTH then
             (False,
              hello_set_error
                (''Name too long ('' @ dec_nat len @ '' chars, max ''
                   @ dec_int (int MAX_NAME_LENGTH - 1) @ '')'') s)
           else (True, s)))"

subsection \<open>Public functions: lifecycle\<close>

text \<open>\<^verbatim>\<open>Hello_GreeterConfig\<close> is declared in \<^verbatim>\<open>hello/hello.h\<close>; the code and its tests
  use the fields \<^verbatim>\<open>name\<close>, \<^verbatim>\<open>greeting\<close> (nullable strings) and \<^verbatim>\<open>uppercase\<close>.\<close>

record Hello_GreeterConfig =
  cfg_name :: "string option"
  cfg_greeting :: "string option"
  cfg_uppercase :: bool

text \<open>Modelled from the spec: the macro \<^verbatim>\<open>HELLO_GREETER_CONFIG_DEFAULT\<close> of the header
  \<^verbatim>\<open>hello/hello.h\<close>, which is not among the sources. The spec gives the defaults
  name = "World", greeting = "Hello", uppercase = false.\<close>

definition HELLO_GREETER_CONFIG_DEFAULT :: Hello_GreeterConfig where
  "HELLO_GREETER_CONFIG_DEFAULT =
     \<lparr>cfg_name = Some ''World'', cfg_greeting = Some ''Hello'', cfg_uppercase = False\<rparr>"

text \<open>A store through a greeter pointer: \<^verbatim>\<open>greeter->field = v\<close>.\<close>

definition write_greeter :: "addr \<Rightarrow> (Hello_Greeter \<Rightarrow> Hello_Greeter) \<Rightarrow> state \<Rightarrow> state" where
  "write_greeter a f s =
     (case cell_at s a of
        Greeter g \<Rightarrow> s\<lparr>heap := (heap s)[a := Greeter (f g)]\<rparr>
      | _ \<Rightarrow> s)"

definition hello_greeter_create :: "Hello_GreeterConfig option \<Rightarrow> state \<Rightarrow> addr option \<times> state" where
  "hello_greeter_create config s =
     (let default_config = HELLO_GREETER_CONFIG_DEFAULT;
          config = (case config of None \<Rightarrow> default_config | Some c \<Rightarrow> c);
          nm = (case cfg_name config of Some x \<Rightarrow> x | None \<Rightarrow> ''World'');
          gr = (case cfg_greeting config of Some x \<Rightarrow> x | None \<Rightarrow> ''Hello'');
          (valid, s1) = validate_name (Some nm) s
      in
      if \<not> valid then (None, s1)
      else
        (case alloc (Greeter \<lparr>name = None, greeting = None, uppercase = False\<rparr>) s1 of
           (None, s2) \<Rightarrow> (None, hello_set_error ''Failed to allocate Hello_Greeter'' s2)
         | (Some greeter, s2) \<Rightarrow>
             (case safe_strdup (Some nm) s2 of
                (None, s3) \<Rightarrow> (None, c_free (Some greeter) s3)
              | (Some p, s3) \<Rightarrow>
                  (let s4 = write_greeter greeter (\<lambda>g. g\<lparr>name := Some p\<rparr>) s3 in
                   case safe_strdup (Some gr) s4 of
                     (None, s5) \<Rightarrow> (None, c_free (Some greeter) (c_free (Some p) s5))
                   | (Some q, s5) \<Rightarrow>
                       (Some greeter,
                        write_greeter greeter (\<lambda>g. g\<lparr>uppercase := cfg_uppercase config\<rparr>)
                          (write_greeter greeter (\<lambda>g. g\<lparr>greeting := Some q\<rparr>) s5))))))"

text \<open>The operations that take a greeter handle return \<open>None\<close> where the C code
  dereferences a handle that is not a live greeter (undefined behaviour).\<close>

definition hello_greeter_destroy :: "addr option \<Rightarrow> state \<Rightarrow> state option" where
  "hello_greeter_destroy greeter s =
     (case greeter of
        None \<Rightarrow> Some s
      | Some a \<Rightarrow>
          do {
            g \<leftarrow> read_greeter s a;
            Some (c_free (Some a) (c_free (greeting g) (c_free (name g) s)))
          })"

subsection \<open>Public functions: operations\<close>

text \<open>The text that the format \<^verbatim>\<open>"%s, %s!"\<close> renders for a greeting and a name.\<close>

definition render_greeting :: "string \<Rightarrow> string \<Rightarrow> string" where
  "render_greeting gr nm = gr @ '', '' @ nm @ ''!''"

text \<open>\<open>hello_greeter_greet\<close> returns the \<^verbatim>\<open>int\<close>, the caller's buffer as the call
  leaves it, and the state.\<close>

definition hello_greeter_greet ::
  "addr option \<Rightarrow> char list option \<Rightarrow> nat \<Rightarrow> state \<Rightarrow> (int \<times> char list option \<times> state) option" where
  "hello_greeter_greet greeter buffer buffer_size s =
     (case greeter of
        None \<Rightarrow> Some (- 1, buffer, hello_set_error ''greeter is NULL'' s)
      | Some a \<Rightarrow>
          (case buffer of
             None \<Rightarrow> Some (- 1, None, hello_set_error ''Invalid output buffer'' s)
           | Some buf \<Rightarrow>
               if buffer_size = 0 then
                 Some (- 1, Some buf, hello_set_error ''Invalid output buffer'' s)
               else
                 do {
                   g \<leftarrow> read_greeter s a;
                   gr \<leftarrow> read_str s (greeting g);
                   nm \<leftarrow> read_str s (name g);
                   let (written, buf1) = c_snprintf buf buffer_size (render_greeting gr nm);
                   if written < 0 then
                     Some (- 1, Some buf1, hello_set_error ''Formatting failed'' s)
                   else
                     (let s1 =
                        (if nat written \<ge> buffer_size then
                           hello_set_error
                             (''Buffer too small (need '' @ dec_int (wrap_int (written + 1))
                                @ '', have '' @ dec_nat buffer_size @ '')'') s
                         else s);
                        buf2 = (if uppercase g then str_to_upper buf1 else buf1)
                      in Some (written, Some buf2, s1))
                 }))"

text \<open>\<open>hello_greeter_get_name\<close> returns the pointer stored in the greeter.\<close>

definition hello_greeter_get_name :: "addr option \<Rightarrow> state \<Rightarrow> (addr option \<times> state) option" where
  "hello_greeter_get_name greeter s =
     (case greeter of
        None \<Rightarrow> Some (None, hello_set_error ''greeter is NULL'' s)
      | Some a \<Rightarrow> do { g \<leftarrow> read_greeter s a; Some (name g, s) })"

definition hello_greeter_set_name ::
  "addr option \<Rightarrow> string option \<Rightarrow> state \<Rightarrow> (bool \<times> state) option" where
  "hello_greeter_set_name greeter nm s =
     (case greeter of
        None \<Rightarrow> Some (False, hello_set_error ''greeter is NULL'' s)
      | Some a \<Rightarrow>
          (let (valid, s1) = validate_name nm s in
           if \<not> valid then Some (False, s1)
           else
             (case safe_strdup nm s1 of
                (None, s2) \<Rightarrow> Some (False, s2)
              | (Some new_name, s2) \<Rightarrow>
                  do {
                    g \<leftarrow> read_greeter s2 a;
                    Some (True,
                          write_greeter a (\<lambda>g. g\<lparr>name := Some new_name\<rparr>) (c_free (name g) s2))
                  })))"

subsection \<open>Public functions: utility\<close>

definition hello_get_version :: string where
  "hello_get_version = HELLO_VERSION"

section \<open>States and observations used in the statements\<close>

text \<open>The state in which a thread starts: the error buffer zero-initialised, the
  flag \<^verbatim>\<open>false\<close>, nothing allocated, no allocation failure ahead.\<close>

definition s_init :: state where
  "s_init =
     \<lparr>g_error_buffer = replicate ERROR_BUFFER_SIZE NUL, g_has_error = False,
      heap = [], alloc_plan = []\<rparr>"

text \<open>What a live greeter holds: the name and the greeting its two pointers lead to,
  and its flag. \<open>None\<close> when the handle is not a live greeter with two live strings.\<close>

definition greeter_view :: "state \<Rightarrow> addr \<Rightarrow> (string \<times> string \<times> bool) option" where
  "greeter_view s a =
     do {
       g \<leftarrow> read_greeter s a;
       nm \<leftarrow> read_str s (name g);
       gr \<leftarrow> read_str s (greeting g);
       Some (nm, gr, uppercase g)
     }"

text \<open>The name a caller reads through the pointer that \<open>hello_greeter_get_name\<close>
  returns for a handle.\<close>

definition observed_name :: "state \<Rightarrow> addr \<Rightarrow> string option" where
  "observed_name s a =
     (case hello_greeter_get_name (Some a) s of
        None \<Rightarrow> None
      | Some (p, s') \<Rightarrow> read_str s' p)"

text \<open>The invariant on the name of a greeter, as a caller can observe it: the name
  read through \<open>hello_greeter_get_name\<close> is not empty and shorter than
  \<open>MAX_NAME_LENGTH\<close>.\<close>

definition name_invariant :: "state \<Rightarrow> addr \<Rightarrow> bool" where
  "name_invariant s a =
     (case observed_name s a of
        None \<Rightarrow> False
      | Some n \<Rightarrow> 0 < length n \<and> length n < MAX_NAME_LENGTH)"

text \<open>A greeter as \<open>hello_greeter_create\<close> and \<open>hello_greeter_set_name\<close> leave it: a live
  struct whose two pointers lead to two different live strings, the name within its
  bounds.\<close>

definition well_formed_greeter :: "state \<Rightarrow> addr \<Rightarrow> bool" where
  "well_formed_greeter s a =
     (case read_greeter s a of
        None \<Rightarrow> False
      | Some g \<Rightarrow>
          name g \<noteq> greeting g \<and>
          (case read_str s (name g) of
             None \<Rightarrow> False
           | Some n \<Rightarrow> 0 < length n \<and> length n < MAX_NAME_LENGTH) \<and>
          read_str s (greeting g) \<noteq> None)"

text \<open>The operations a caller applies to a greeter between its creation and its
  destruction, and a sequence of them on one handle; \<open>None\<close> when a call has
  undefined behaviour.\<close>

datatype operation = Set_name "string option" | Greet "char list option" nat | Get_name

fun apply_operation :: "addr \<Rightarrow> operation \<Rightarrow> state \<Rightarrow> state option" where
  "apply_operation a (Set_name nm) s =
     map_option snd (hello_greeter_set_name (Some a) nm s)"
| "apply_operation a (Greet buffer buffer_size) s =
     map_option (\<lambda>r. snd (snd r)) (hello_greeter_greet (Some a) buffer buffer_size s)"
| "apply_operation a Get_name s =
     map_option snd (hello_greeter_get_name (Some a) s)"

fun run_operations :: "addr \<Rightarrow> operation list \<Rightarrow> state \<Rightarrow> state option" where
  "run_operations a [] s = Some s"
| "run_operations a (x # xs) s =
     (case apply_operation a x s of
        None \<Rightarrow> None
      | Some s' \<Rightarrow> run_operations a xs s')"

text \<open>None of the next \<open>n\<close> allocations fails.\<close>

definition allocs_succeed :: "nat \<Rightarrow> state \<Rightarrow> bool" where
  "allocs_succeed n s = (False \<notin> set (take n (alloc_plan s)))"

text \<open>The default greeter, created in the initial state.\<close>

definition s_default :: state where
  "s_default = snd (hello_greeter_create None s_init)"

text \<open>The default greeter with the flag \<^verbatim>\<open>uppercase\<close> set, as the upper-case
  test of \<^verbatim>\<open>tests/test_main.c\<close> creates it.\<close>

definition s_upper :: state where
  "s_upper = snd (hello_greeter_create
     (Some (HELLO_GREETER_CONFIG_DEFAULT\<lparr>cfg_uppercase := True\<rparr>)) s_init)"

text \<open>A greeter whose greeting has \<open>2 ^ 31\<close> bytes, created in the initial state.\<close>

definition long_greeting :: string where
  "long_greeting = replicate 2147483648 (CHR ''a'')"

definition s_long :: state where
  "s_long =
     snd (hello_greeter_create
       (Some \<lparr>cfg_name = None, cfg_greeting = Some long_greeting, cfg_uppercase = True\<rparr>) s_init)"

section \<open>Basic facts\<close>

subsection \<open>Bytes and strings\<close>

lemma char_of_0_NUL: "char_of (0::nat) = NUL"
  unfolding NUL_def by code_simp

lemma of_char_eq_0: "(of_char c :: nat) = 0 \<longleftrightarrow> c = NUL"
proof
  assume "(of_char c :: nat) = 0"
  then have "char_of (of_char c :: nat) = char_of (0::nat)" by simp
  then show "c = NUL" by (simp add: char_of_0_NUL)
next
  assume "c = NUL"
  then show "(of_char c :: nat) = 0" by (simp add: NUL_def)
qed

lemma toupper_NUL: "toupper c = NUL \<longleftrightarrow> c = NUL"
proof (cases "97 \<le> (of_char c :: nat) \<and> (of_char c :: nat) \<le> 122")
  case True
  then have "(of_char (toupper c) :: nat) = ((of_char c :: nat) - 32) mod 256"
    by (simp add: toupper_def Let_def)
  moreover have "(of_char c :: nat) - 32 < 256" "(of_char c :: nat) - 32 \<noteq> 0"
    using True by linarith+
  ultimately have "(of_char (toupper c) :: nat) \<noteq> 0" by simp
  moreover have "(of_char c :: nat) \<noteq> 0" using True by linarith
  ultimately show ?thesis by (simp add: of_char_eq_0)
next
  case False
  then show ?thesis by (auto simp add: toupper_def Let_def)
qed

lemma c_str_terminated: "c_string_ok xs \<Longrightarrow> c_str (xs @ NUL # ys) = xs"
  by (induction xs) (auto simp add: c_str_def c_string_ok_def)

lemma str_to_upper_terminated:
  "c_string_ok xs \<Longrightarrow> str_to_upper (xs @ NUL # ys) = map toupper xs @ NUL # ys"
  by (induction xs) (auto simp add: c_string_ok_def)

lemma c_str_upper_terminated:
  "c_string_ok xs \<Longrightarrow> c_str (str_to_upper (xs @ NUL # ys)) = map toupper xs"
  by (induction xs) (auto simp add: c_str_def toupper_NUL c_string_ok_def)

lemma length_str_to_upper: "length (str_to_upper xs) = length xs"
  by (induction xs) auto

lemma c_string_ok_take: "c_string_ok xs \<Longrightarrow> c_string_ok (take n xs)"
  by (auto simp add: c_string_ok_def dest: in_set_takeD)

lemma c_string_ok_append: "c_string_ok (xs @ ys) \<longleftrightarrow> c_string_ok xs \<and> c_string_ok ys"
  by (auto simp add: c_string_ok_def)

subsection \<open>\<open>snprintf\<close>\<close>

lemma snprintf_c_str:
  "c_string_ok out \<Longrightarrow> 0 < sz \<Longrightarrow> c_str (snd (c_snprintf buf sz out)) = take (sz - 1) out"
  by (simp add: c_snprintf_def store_bytes_def c_str_terminated c_string_ok_take)

lemma snprintf_upper_c_str:
  "c_string_ok out \<Longrightarrow> 0 < sz \<Longrightarrow>
   c_str (str_to_upper (snd (c_snprintf buf sz out))) = map toupper (take (sz - 1) out)"
  by (simp add: c_snprintf_def store_bytes_def c_str_upper_terminated c_string_ok_take)

lemma snprintf_length:
  "sz \<le> length buf \<Longrightarrow> length (snd (c_snprintf buf sz out)) = length buf"
  by (auto simp add: c_snprintf_def store_bytes_def min_def)

subsection \<open>The error channel\<close>

lemma set_error_fields [simp]:
  "g_has_error (hello_set_error m s) = True"
  "heap (hello_set_error m s) = heap s"
  "alloc_plan (hello_set_error m s) = alloc_plan s"
  by (simp_all add: hello_set_error_def)

lemma set_error_cell_at [simp]: "cell_at (hello_set_error m s) a = cell_at s a"
  by (simp add: cell_at_def)

lemma c_str_clear: "c_str (buf[0 := NUL]) = []"
  by (cases buf) (simp_all add: c_str_def)

lemma get_last_error_set:
  "c_string_ok m \<Longrightarrow>
   hello_get_last_error (hello_set_error m s) = take (ERROR_BUFFER_SIZE - 1) m"
  by (simp add: hello_get_last_error_def hello_set_error_def snprintf_c_str
      ERROR_BUFFER_SIZE_def)

subsection \<open>Greeting through a live handle\<close>

lemma view_SomeD:
  "greeter_view s a = Some (nm, gr, up) \<Longrightarrow>
   \<exists>g. read_greeter s a = Some g \<and> read_str s (name g) = Some nm \<and>
       read_str s (greeting g) = Some gr \<and> uppercase g = up"
  by (auto simp add: greeter_view_def bind_eq_Some_conv)

text \<open>What \<open>hello_greeter_greet\<close> does on a live greeter, a non-null buffer and a
  capacity that is not zero: every branch of the code behind its three guards.\<close>

lemma greet_live:
  assumes "greeter_view s a = Some (nm, gr, up)" and "0 < sz"
  shows "hello_greeter_greet (Some a) (Some buf) sz s =
     (let out = render_greeting gr nm; buf1 = snd (c_snprintf buf sz out) in
      if int (length out) > INT_MAX then
        Some (- 1, Some buf1, hello_set_error ''Formatting failed'' s)
      else
        Some (int (length out),
              Some (if up then str_to_upper buf1 else buf1),
              if sz \<le> length out then
                hello_set_error
                  (''Buffer too small (need '' @ dec_int (wrap_int (int (length out) + 1))
                     @ '', have '' @ dec_nat sz @ '')'') s
              else s))"
proof -
  from view_SomeD [OF assms(1)] obtain g where
    g: "read_greeter s a = Some g" "read_str s (name g) = Some nm"
       "read_str s (greeting g) = Some gr" "uppercase g = up"
    by blast
  show ?thesis
    using g assms(2)
    by (simp add: hello_greeter_greet_def Let_def c_snprintf_def INT_MAX_def)
qed

subsection \<open>The example greeters\<close>

lemmas create_defs = hello_greeter_create_def HELLO_GREETER_CONFIG_DEFAULT_def
  validate_name_def MAX_NAME_LENGTH_def alloc_def alloc_succeeds_def safe_strdup_def
  write_greeter_def cell_at_def c_free_def Let_def

lemma create_default:
  "hello_greeter_create None s_init =
     (Some 0, s_init\<lparr>heap := [Greeter \<lparr>name = Some 1, greeting = Some 2, uppercase = False\<rparr>,
                               Str ''World'', Str ''Hello'']\<rparr>)"
  by (simp add: create_defs s_init_def)

lemma s_default_heap:
  "s_default = s_init\<lparr>heap := [Greeter \<lparr>name = Some 1, greeting = Some 2, uppercase = False\<rparr>,
                               Str ''World'', Str ''Hello'']\<rparr>"
  by (simp add: s_default_def create_default)

lemma s_default_view: "greeter_view s_default 0 = Some (''World'', ''Hello'', False)"
  by (simp add: s_default_def create_default greeter_view_def read_greeter_def read_str_def
      cell_at_def)

lemma create_long:
  "hello_greeter_create
      (Some \<lparr>cfg_name = None, cfg_greeting = Some long_greeting, cfg_uppercase = True\<rparr>) s_init
   = (Some 0, s_init\<lparr>heap := [Greeter \<lparr>name = Some 1, greeting = Some 2, uppercase = True\<rparr>,
                               Str ''World'', Str long_greeting]\<rparr>)"
  by (simp add: create_defs s_init_def)

lemma s_long_view: "greeter_view s_long 0 = Some (''World'', long_greeting, True)"
  by (simp add: s_long_def create_long greeter_view_def read_greeter_def read_str_def
      cell_at_def)

lemma s_upper_view: "greeter_view s_upper 0 = Some (''World'', ''Hello'', True)"
  by (simp add: s_upper_def create_defs s_init_def greeter_view_def read_greeter_def
      read_str_def)

lemma hello_world_ok: "c_string_ok ''World''" "c_string_ok ''Hello''"
  by (simp_all add: c_string_ok_def NUL_def)

lemma length_long: "length long_greeting = 2147483648"
  by (simp add: long_greeting_def)

subsection \<open>Error messages are C strings\<close>

lemma digit_char_not_NUL: "d < 10 \<Longrightarrow> digit_char d \<noteq> NUL"
proof
  assume d: "d < 10" and "digit_char d = NUL"
  then have "(of_char (char_of (48 + d) :: char) :: nat) = 0"
    by (simp add: digit_char_def of_char_eq_0)
  then show False using d by simp
qed

lemma c_string_ok_dec_nat: "c_string_ok (dec_nat n)"
proof (induction n rule: dec_nat.induct)
  case (1 n)
  show ?case
  proof (cases "n < 10")
    case True
    then show ?thesis
      using digit_char_not_NUL [of n]
      by (subst dec_nat.simps) (auto simp add: c_string_ok_def)
  next
    case False
    with "1" have "c_string_ok (dec_nat (n div 10))" by simp
    moreover have "digit_char (n mod 10) \<noteq> NUL" by (simp add: digit_char_not_NUL)
    ultimately show ?thesis using False
      by (subst dec_nat.simps) (auto simp add: c_string_ok_def)
  qed
qed

lemma c_string_ok_dec_int: "c_string_ok (dec_int i)"
  using c_string_ok_dec_nat by (simp add: dec_int_def c_string_ok_def NUL_def)

lemma c_string_ok_render:
  "c_string_ok gr \<Longrightarrow> c_string_ok nm \<Longrightarrow> c_string_ok (render_greeting gr nm)"
  by (simp add: render_greeting_def c_string_ok_def NUL_def)

lemma too_small_msg_ok:
  "c_string_ok (''Buffer too small (need '' @ dec_int i @ '', have '' @ dec_nat n @ '')'')"
  using c_string_ok_dec_int [of i] c_string_ok_dec_nat [of n]
  by (simp add: c_string_ok_def NUL_def)

subsection \<open>Creating a greeter\<close>

lemma create_succeeds:
  assumes "allocs_succeed 3 s" and "0 < length nm" and "length nm < MAX_NAME_LENGTH"
    and "nm = (case cfg_name cfg of Some x \<Rightarrow> x | None \<Rightarrow> ''World'')"
    and "gr = (case cfg_greeting cfg of Some x \<Rightarrow> x | None \<Rightarrow> ''Hello'')"
  shows "hello_greeter_create (Some cfg) s =
     (Some (length (heap s)),
      s\<lparr>heap := heap s @
           [Greeter \<lparr>name = Some (Suc (length (heap s))),
                     greeting = Some (Suc (Suc (length (heap s)))),
                     uppercase = cfg_uppercase cfg\<rparr>,
            Str nm, Str gr],
        alloc_plan := drop 3 (alloc_plan s)\<rparr>)"
  using assms
  apply (cases "alloc_plan s")
   apply (simp add: create_defs allocs_succeed_def)
  subgoal for p1 r1
    apply (cases r1)
     apply (simp add: create_defs allocs_succeed_def)
    subgoal for p2 r2
      apply (cases r2)
       apply (simp add: create_defs allocs_succeed_def)
      apply (simp add: create_defs allocs_succeed_def)
      done
    done
  done

lemma create_None:
  "hello_greeter_create None s = hello_greeter_create (Some HELLO_GREETER_CONFIG_DEFAULT) s"
  by (simp add: hello_greeter_create_def)

lemma view_new_greeter:
  "greeter_view
     (s\<lparr>heap := heap s @
           [Greeter \<lparr>name = Some (Suc (length (heap s))),
                     greeting = Some (Suc (Suc (length (heap s)))),
                     uppercase = up\<rparr>,
            Str nm, Str gr],
        alloc_plan := pl\<rparr>) (length (heap s)) = Some (nm, gr, up)"
  by (simp add: greeter_view_def read_greeter_def read_str_def cell_at_def nth_append)

text \<open>Creation with a valid name and no allocation failure, as the caller sees it.\<close>

lemma create_view:
  assumes "allocs_succeed 3 s" and "0 < length nm" and "length nm < MAX_NAME_LENGTH"
    and "nm = (case cfg_name cfg of Some x \<Rightarrow> x | None \<Rightarrow> ''World'')"
    and "gr = (case cfg_greeting cfg of Some x \<Rightarrow> x | None \<Rightarrow> ''Hello'')"
  shows "\<exists>h s'. hello_greeter_create (Some cfg) s = (Some h, s') \<and>
      greeter_view s' h = Some (nm, gr, cfg_uppercase cfg) \<and>
      heap s' = heap s @
        [Greeter \<lparr>name = Some (h + 1), greeting = Some (h + 2), uppercase = cfg_uppercase cfg\<rparr>,
         Str nm, Str gr] \<and>
      g_has_error s' = g_has_error s \<and> g_error_buffer s' = g_error_buffer s"
  by (simp add: create_succeeds [OF assms] view_new_greeter)

subsection \<open>Greeting: the buffer as a C string\<close>

lemma greet_c_str:
  assumes "greeter_view s a = Some (nm, gr, up)"
    and "c_string_ok nm" and "c_string_ok gr" and "0 < sz"
    and "int (length (render_greeting gr nm)) \<le> INT_MAX"
  shows "\<exists>buf'.
      hello_greeter_greet (Some a) (Some buf) sz s =
        Some (int (length (render_greeting gr nm)), Some buf',
              if sz \<le> length (render_greeting gr nm) then
                hello_set_error
                  (''Buffer too small (need ''
                     @ dec_int (wrap_int (int (length (render_greeting gr nm)) + 1))
                     @ '', have '' @ dec_nat sz @ '')'') s
              else s) \<and>
      c_str buf' = (if up then map toupper (take (sz - 1) (render_greeting gr nm))
                    else take (sz - 1) (render_greeting gr nm)) \<and>
      (sz \<le> length buf \<longrightarrow> length buf' = length buf)"
proof -
  have ok: "c_string_ok (render_greeting gr nm)"
    using assms(2,3) by (simp add: c_string_ok_render)
  show ?thesis
    using greet_live [OF assms(1,4), of buf] assms(5) ok assms(4)
    by (simp add: Let_def snprintf_c_str snprintf_upper_c_str snprintf_length
        length_str_to_upper)
qed

lemma greet_fits:
  assumes "greeter_view s a = Some (nm, gr, False)"
    and "c_string_ok nm" and "c_string_ok gr"
    and "length (render_greeting gr nm) < sz"
    and "int (length (render_greeting gr nm)) \<le> INT_MAX"
  shows "\<exists>buf'. hello_greeter_greet (Some a) (Some buf) sz s =
            Some (int (length (render_greeting gr nm)), Some buf', s) \<and>
          c_str buf' = render_greeting gr nm"
proof -
  have pos: "0 < sz" using assms(4) by linarith
  have "length (render_greeting gr nm) \<le> sz - 1" using assms(4) by linarith
  then have tk: "take (sz - 1) (render_greeting gr nm) = render_greeting gr nm"
    by (rule take_all)
  show ?thesis
    using greet_c_str [OF assms(1,2,3) pos assms(5), of buf] assms(4)
    by (auto simp only: tk if_False not_le [symmetric])
qed

lemma upper_hello_world: "map toupper ''Hello, World!'' = ''HELLO, WORLD!''"
  by code_simp

subsection \<open>Dereferencing and validation\<close>

lemma read_greeter_SomeD:
  "read_greeter s a = Some g \<Longrightarrow> a < length (heap s) \<and> heap s ! a = Greeter g"
  by (auto simp add: read_greeter_def cell_at_def split: if_splits cell.splits)

lemma read_str_SomeD:
  "read_str s (Some p) = Some x \<Longrightarrow> p < length (heap s) \<and> heap s ! p = Str x"
  by (auto simp add: read_str_def cell_at_def split: if_splits cell.splits)

lemma validate_name_result:
  "validate_name nm s =
     (case nm of
        None \<Rightarrow> (False, hello_set_error ''Name cannot be NULL'' s)
      | Some x \<Rightarrow>
          if x = [] then (False, hello_set_error ''Name cannot be empty'' s)
          else if MAX_NAME_LENGTH \<le> length x then
            (False,
             hello_set_error
               (''Name too long ('' @ dec_nat (length x) @ '' chars, max ''
                  @ dec_int (int MAX_NAME_LENGTH - 1) @ '')'') s)
          else (True, s))"
  by (simp add: validate_name_def Let_def split: option.splits)

subsection \<open>Well-formed greeters\<close>

lemma read_heap_cong:
  assumes "heap t = heap s"
  shows "cell_at t = cell_at s" and "read_greeter t = read_greeter s"
    and "read_str t = read_str s"
proof -
  show c: "cell_at t = cell_at s" using assms by (simp add: cell_at_def fun_eq_iff)
  show "read_greeter t = read_greeter s"
    unfolding read_greeter_def fun_eq_iff c by (rule allI) (rule refl)
  show "read_str t = read_str s"
    unfolding read_str_def fun_eq_iff c by (intro allI) (rule refl)
qed

lemma well_formed_heap_cong:
  assumes "heap t = heap s"
  shows "well_formed_greeter t a = well_formed_greeter s a"
  unfolding well_formed_greeter_def read_heap_cong(2,3) [OF assms] by (rule refl)

lemma well_formed_set_error [simp]:
  "well_formed_greeter (hello_set_error m s) a = well_formed_greeter s a"
  by (rule well_formed_heap_cong) simp

lemma well_formed_alloc_plan [simp]:
  "well_formed_greeter (s\<lparr>alloc_plan := pl\<rparr>) a = well_formed_greeter s a"
  by (rule well_formed_heap_cong) simp

lemma well_formed_D:
  assumes "well_formed_greeter s a"
  shows "\<exists>g p q nm gr. read_greeter s a = Some g \<and> name g = Some p \<and> greeting g = Some q \<and>
      p \<noteq> q \<and> read_str s (Some p) = Some nm \<and> read_str s (Some q) = Some gr \<and>
      0 < length nm \<and> length nm < MAX_NAME_LENGTH"
  using assms
  by (auto simp add: well_formed_greeter_def read_str_def split: option.splits)

lemma well_formed_name_invariant:
  "well_formed_greeter s a \<Longrightarrow> name_invariant s a"
  by (auto simp add: well_formed_greeter_def name_invariant_def observed_name_def
      hello_greeter_get_name_def split: option.splits)

subsection \<open>When creation returns a handle\<close>

lemma create_invalid_name:
  assumes "nm = (case cfg_name cfg of Some x \<Rightarrow> x | None \<Rightarrow> ''World'')"
    and "nm = [] \<or> MAX_NAME_LENGTH \<le> length nm"
  shows "hello_greeter_create (Some cfg) s = (None, snd (validate_name (Some nm) s))"
  using assms by (auto simp add: hello_greeter_create_def validate_name_result Let_def)

lemma create_alloc_failure:
  assumes "nm = (case cfg_name cfg of Some x \<Rightarrow> x | None \<Rightarrow> ''World'')"
    and "0 < length nm" and "length nm < MAX_NAME_LENGTH"
    and "\<not> allocs_succeed 3 s"
  shows "fst (hello_greeter_create (Some cfg) s) = None"
proof (cases "alloc_plan s")
  case Nil
  with assms(4) show ?thesis by (simp add: allocs_succeed_def)
next
  case (Cons b1 r1)
  note c1 = Cons
  show ?thesis
  proof (cases b1)
    case False
    with c1 assms(1-3) show ?thesis by (simp add: create_defs)
  next
    case True
    note t1 = True
    show ?thesis
    proof (cases r1)
      case Nil
      with c1 t1 assms(4) show ?thesis by (simp add: allocs_succeed_def)
    next
      case (Cons b2 r2)
      note c2 = Cons
      show ?thesis
      proof (cases b2)
        case False
        with c1 c2 t1 assms(1-3) show ?thesis by (simp add: create_defs)
      next
        case True
        note t2 = True
        show ?thesis
        proof (cases r2)
          case Nil
          with c1 c2 t1 t2 assms(4) show ?thesis by (simp add: allocs_succeed_def)
        next
          case (Cons b3 r3)
          with c1 c2 t1 t2 assms(4) have "\<not> b3" by (simp add: allocs_succeed_def)
          with Cons c1 c2 t1 t2 assms(1-3) show ?thesis by (simp add: create_defs)
        qed
      qed
    qed
  qed
qed

text \<open>A handle comes out of \<open>hello_greeter_create\<close> only on the path where the name is
  valid and the three allocations succeed.\<close>

lemma create_Some_D:
  assumes "hello_greeter_create (Some cfg) s = (Some a, s0)"
    and "nm = (case cfg_name cfg of Some x \<Rightarrow> x | None \<Rightarrow> ''World'')"
    and "gr = (case cfg_greeting cfg of Some x \<Rightarrow> x | None \<Rightarrow> ''Hello'')"
  shows "0 < length nm \<and> length nm < MAX_NAME_LENGTH \<and> allocs_succeed 3 s \<and>
     a = length (heap s) \<and>
     s0 = s\<lparr>heap := heap s @
           [Greeter \<lparr>name = Some (Suc (length (heap s))),
                     greeting = Some (Suc (Suc (length (heap s)))),
                     uppercase = cfg_uppercase cfg\<rparr>,
            Str nm, Str gr],
        alloc_plan := drop 3 (alloc_plan s)\<rparr>"
proof -
  have v: "0 < length nm \<and> length nm < MAX_NAME_LENGTH"
  proof (rule ccontr)
    assume "\<not> (0 < length nm \<and> length nm < MAX_NAME_LENGTH)"
    then have "nm = [] \<or> MAX_NAME_LENGTH \<le> length nm" by auto
    from create_invalid_name [OF assms(2) this, of s] assms(1) show False by simp
  qed
  have al: "allocs_succeed 3 s"
  proof (rule ccontr)
    assume "\<not> allocs_succeed 3 s"
    with create_alloc_failure [OF assms(2), of s] v assms(1) show False by simp
  qed
  from v have v1: "0 < length nm" and v2: "length nm < MAX_NAME_LENGTH" by simp_all
  let ?S = "s\<lparr>heap := heap s @
           [Greeter \<lparr>name = Some (Suc (length (heap s))),
                     greeting = Some (Suc (Suc (length (heap s)))),
                     uppercase = cfg_uppercase cfg\<rparr>,
            Str nm, Str gr],
        alloc_plan := drop 3 (alloc_plan s)\<rparr>"
  have "hello_greeter_create (Some cfg) s = (Some (length (heap s)), ?S)"
    by (rule create_succeeds [OF al v1 v2 assms(2,3)])
  with assms(1) have "(Some a, s0) = (Some (length (heap s)), ?S)"
    by (simp only:)
  then have "a = length (heap s)" and "s0 = ?S"
    by (simp_all only: prod.inject option.inject)
  with v al show ?thesis by (simp only: simp_thms)
qed

lemma create_well_formed:
  assumes "hello_greeter_create config s = (Some a, s0)"
  shows "well_formed_greeter s0 a"
proof -
  obtain cfg where c: "hello_greeter_create (Some cfg) s = (Some a, s0)"
    using assms by (cases config) (auto simp add: create_None)
  from create_Some_D [OF c refl refl] obtain nm gr up where
    v: "0 < length nm" "length nm < MAX_NAME_LENGTH" and
    a: "a = length (heap s)" and
    h: "heap s0 = heap s @
           [Greeter \<lparr>name = Some (Suc (length (heap s))),
                     greeting = Some (Suc (Suc (length (heap s)))),
                     uppercase = up\<rparr>,
            Str nm, Str gr]"
    by auto
  show ?thesis
    using v
    by (simp add: well_formed_greeter_def read_greeter_def read_str_def cell_at_def a h
        nth_append)
qed

subsection \<open>Operations on a well-formed greeter\<close>

lemma set_name_well_formed:
  assumes "well_formed_greeter s a"
  shows "\<exists>ok s'. hello_greeter_set_name (Some a) nm s = Some (ok, s') \<and>
           well_formed_greeter s' a"
proof -
  from well_formed_D [OF assms] obtain g p q nm0 gr where
    g: "read_greeter s a = Some g" "name g = Some p" "greeting g = Some q" "p \<noteq> q" and
    rp: "read_str s (Some p) = Some nm0" and rq: "read_str s (Some q) = Some gr"
    by blast
  from read_greeter_SomeD [OF g(1)] have a: "a < length (heap s)" "heap s ! a = Greeter g"
    by simp_all
  from read_str_SomeD [OF rp] have p: "p < length (heap s)" "heap s ! p = Str nm0"
    by simp_all
  from read_str_SomeD [OF rq] have q: "q < length (heap s)" "heap s ! q = Str gr"
    by simp_all
  from a p q have ne: "a \<noteq> p" "a \<noteq> q" by auto
  show ?thesis
  proof (cases "(\<exists>x. nm = Some x \<and> 0 < length x \<and> length x < MAX_NAME_LENGTH)")
    case False
    then show ?thesis
      using assms
      by (cases nm) (auto simp add: hello_greeter_set_name_def validate_name_result)
  next
    case True
    then obtain x where x: "nm = Some x" "0 < length x" "length x < MAX_NAME_LENGTH"
      by blast
    show ?thesis
    proof (cases "alloc_succeeds s")
      case False
      then show ?thesis
        using x assms
        by (auto simp add: hello_greeter_set_name_def validate_name_result safe_strdup_def
            alloc_def Let_def)
    next
      case True
      then show ?thesis
        using x a p q ne g
        by (auto simp add: hello_greeter_set_name_def validate_name_result safe_strdup_def
            alloc_def Let_def read_greeter_def cell_at_def c_free_def write_greeter_def
            nth_append well_formed_greeter_def read_str_def)
    qed
  qed
qed

lemma greet_well_formed:
  assumes "well_formed_greeter s a"
  shows "\<exists>r b s'. hello_greeter_greet (Some a) buffer buffer_size s = Some (r, b, s') \<and>
           well_formed_greeter s' a"
proof -
  from well_formed_D [OF assms] obtain g p q nm0 gr where
    g: "read_greeter s a = Some g" "name g = Some p" "greeting g = Some q" and
    rp: "read_str s (Some p) = Some nm0" and rq: "read_str s (Some q) = Some gr"
    by blast
  show ?thesis
    using g rp rq assms
    by (cases buffer)
      (auto simp add: hello_greeter_greet_def Let_def split: prod.splits)
qed

lemma get_name_well_formed:
  assumes "well_formed_greeter s a"
  shows "\<exists>p. hello_greeter_get_name (Some a) s = Some (p, s)"
  using well_formed_D [OF assms] by (auto simp add: hello_greeter_get_name_def)

lemma apply_operation_well_formed:
  assumes "well_formed_greeter s a"
  shows "\<exists>s'. apply_operation a x s = Some s' \<and> well_formed_greeter s' a"
proof (cases x)
  case (Set_name nm)
  with set_name_well_formed [OF assms, of nm] show ?thesis by auto
next
  case (Greet b n)
  with greet_well_formed [OF assms, of b n] show ?thesis by auto
next
  case Get_name
  with get_name_well_formed [OF assms] assms show ?thesis by auto
qed

lemma run_operations_well_formed:
  "well_formed_greeter s a \<Longrightarrow>
   \<exists>s'. run_operations a ops s = Some s' \<and> well_formed_greeter s' a"
proof (induction ops arbitrary: s)
  case Nil
  then show ?case by simp
next
  case (Cons x xs)
  from apply_operation_well_formed [OF Cons.prems, of x] obtain s1 where
    s1: "apply_operation a x s = Some s1" "well_formed_greeter s1 a"
    by blast
  from Cons.IH [OF s1(2)] s1(1) show ?case by simp
qed

subsection \<open>Calls that leave the error channel alone\<close>

lemma c_free_channel [simp]:
  "g_has_error (c_free p s) = g_has_error s"
  "g_error_buffer (c_free p s) = g_error_buffer s"
  by (simp_all add: c_free_def split: option.splits)

lemma write_greeter_channel [simp]:
  "g_has_error (write_greeter a f s) = g_has_error s"
  "g_error_buffer (write_greeter a f s) = g_error_buffer s"
  by (simp_all add: write_greeter_def split: cell.splits)

lemma create_keeps_channel:
  assumes "hello_greeter_create config s = (Some h, s1)"
  shows "g_has_error s1 = g_has_error s \<and> g_error_buffer s1 = g_error_buffer s"
proof -
  obtain cfg where c: "hello_greeter_create (Some cfg) s = (Some h, s1)"
    using assms by (cases config) (auto simp add: create_None)
  from create_Some_D [OF c refl refl] show ?thesis by simp
qed

lemma set_name_keeps_channel:
  assumes "hello_greeter_set_name handle nm s = Some (True, s2)"
  shows "g_has_error s2 = g_has_error s \<and> g_error_buffer s2 = g_error_buffer s"
proof (cases handle)
  case None
  with assms show ?thesis by (simp add: hello_greeter_set_name_def)
next
  case (Some a)
  show ?thesis
  proof (cases "fst (validate_name nm s)")
    case False
    with assms Some show ?thesis
      by (simp add: hello_greeter_set_name_def Let_def split: prod.splits)
  next
    case True
    then have v: "validate_name nm s = (True, s)"
      by (auto simp add: validate_name_result split: option.splits if_splits)
    show ?thesis
    proof (cases "alloc_succeeds s")
      case False
      with assms Some v show ?thesis
        by (auto simp add: hello_greeter_set_name_def safe_strdup_def alloc_def Let_def
            split: option.splits)
    next
      case True
      with assms Some v show ?thesis
        by (auto simp add: hello_greeter_set_name_def safe_strdup_def alloc_def Let_def
            bind_eq_Some_conv split: option.splits)
    qed
  qed
qed

lemma get_name_keeps_state:
  "hello_greeter_get_name (Some a) s = Some (p, s3) \<Longrightarrow> s3 = s"
  by (auto simp add: hello_greeter_get_name_def bind_eq_Some_conv)

lemma destroy_keeps_channel:
  "hello_greeter_destroy handle s = Some s4 \<Longrightarrow>
   g_has_error s4 = g_has_error s \<and> g_error_buffer s4 = g_error_buffer s"
  by (cases handle) (auto simp add: hello_greeter_destroy_def bind_eq_Some_conv)

lemma greet_fitting_keeps_state:
  assumes "hello_greeter_greet handle buffer n s = Some (r, b, s5)"
    and "0 \<le> r" and "r < int n"
  shows "s5 = s"
proof (cases handle)
  case None
  with assms show ?thesis by (simp add: hello_greeter_greet_def)
next
  case (Some a)
  note h = Some
  show ?thesis
  proof (cases buffer)
    case None
    with assms h show ?thesis by (simp add: hello_greeter_greet_def)
  next
    case (Some buf)
    show ?thesis
    proof (cases "n = 0")
      case True
      with assms h Some show ?thesis by (simp add: hello_greeter_greet_def)
    next
      case False
      with assms h Some show ?thesis
        by (auto simp add: hello_greeter_greet_def Let_def bind_eq_Some_conv c_snprintf_def
            split: if_splits)
    qed
  qed
qed

lemma s_long_no_error: "\<not> g_has_error s_long"
  unfolding s_long_def create_long by (simp add: s_init_def)

section \<open>The claims\<close>

text \<open>
  C1 (amended). For every live greeter and every non-null buffer with capacity \<open>c\<close>,
  where \<open>0 < c\<close> and \<open>c\<close> is at most the full length of the rendering of
  \<^verbatim>\<open>"{greeting}, {name}!"\<close>, and that length is at most \<open>INT_MAX\<close>:
  \<open>hello_greeter_greet\<close> returns the full length (not \<open>-1\<close>), the buffer holds the first
  \<open>c - 1\<close> bytes of the rendering (in upper case when the flag is set) followed by a
  NUL, the array keeps its size, and the error channel is set with the message
  "Buffer too small (need ..., have ...)". The heap is untouched.
\<close>

theorem greet_truncated:
  assumes "greeter_view s a = Some (nm, gr, up)"
    and "c_string_ok nm" and "c_string_ok gr"
    and "0 < c" and "c \<le> length (render_greeting gr nm)" and "c \<le> length buf"
    and "int (length (render_greeting gr nm)) \<le> INT_MAX"
  shows "\<exists>buf' s'.
      hello_greeter_greet (Some a) (Some buf) c s =
        Some (int (length (render_greeting gr nm)), Some buf', s') \<and>
      0 \<le> int (length (render_greeting gr nm)) \<and>
      c_str buf' = (if up then map toupper (take (c - 1) (render_greeting gr nm))
                    else take (c - 1) (render_greeting gr nm)) \<and>
      length (c_str buf') = c - 1 \<and>
      buf' ! (c - 1) = NUL \<and>
      length buf' = length buf \<and>
      hello_has_error s' \<and>
      hello_get_last_error s' =
        take (ERROR_BUFFER_SIZE - 1)
          (''Buffer too small (need ''
             @ dec_int (wrap_int (int (length (render_greeting gr nm)) + 1))
             @ '', have '' @ dec_nat c @ '')'') \<and>
      heap s' = heap s"
proof -
  let ?out = "render_greeting gr nm"
  let ?b1 = "snd (c_snprintf buf c ?out)"
  let ?msg = "''Buffer too small (need '' @ dec_int (wrap_int (int (length ?out) + 1))
             @ '', have '' @ dec_nat c @ '')''"
  have ok: "c_string_ok ?out" using assms(2,3) by (simp add: c_string_ok_render)
  have call: "hello_greeter_greet (Some a) (Some buf) c s =
      Some (int (length ?out), Some (if up then str_to_upper ?b1 else ?b1),
            hello_set_error ?msg s)"
    using greet_live [OF assms(1,4), of buf] assms(5,7) by (simp add: Let_def)
  have le: "c - 1 \<le> length ?out" using assms(5) by linarith
  have lt: "length (take (c - 1) ?out) = c - 1" using le by (simp add: min_absorb2)
  have tk: "c_string_ok (take (c - 1) ?out)" using ok by (rule c_string_ok_take)
  have b1: "?b1 = take (c - 1) ?out @ NUL # drop c buf"
    using assms(4) le by (simp add: c_snprintf_def store_bytes_def min_absorb2)
  have up1: "str_to_upper ?b1 = map toupper (take (c - 1) ?out) @ NUL # drop c buf"
    by (subst b1) (rule str_to_upper_terminated [OF tk])
  have str1: "c_str ?b1 = take (c - 1) ?out"
    using ok assms(4) by (simp add: snprintf_c_str)
  have str2: "c_str (str_to_upper ?b1) = map toupper (take (c - 1) ?out)"
    using ok assms(4) by (simp add: snprintf_upper_c_str)
  have nul1: "?b1 ! (c - 1) = NUL"
  proof -
    have "(take (c - 1) ?out @ NUL # drop c buf) ! length (take (c - 1) ?out) = NUL"
      by (rule nth_append_length)
    then show ?thesis by (simp only: b1 lt)
  qed
  have nul2: "str_to_upper ?b1 ! (c - 1) = NUL"
  proof -
    have "(map toupper (take (c - 1) ?out) @ NUL # drop c buf)
            ! length (map toupper (take (c - 1) ?out)) = NUL"
      by (rule nth_append_length)
    then show ?thesis by (simp only: up1 lt length_map)
  qed
  have len1: "length ?b1 = length buf"
    using assms(6) by (simp add: snprintf_length)
  have msg: "hello_get_last_error (hello_set_error ?msg s) = take (ERROR_BUFFER_SIZE - 1) ?msg"
    by (rule get_last_error_set) (rule too_small_msg_ok)
  show ?thesis
  proof (cases up)
    case True
    then show ?thesis
      using call str2 nul2 len1 lt msg
      by (simp add: hello_has_error_def length_str_to_upper)
  next
    case False
    then show ?thesis
      using call str1 nul1 len1 lt msg
      by (simp add: hello_has_error_def)
  qed
qed

theorem greet_truncated_witness:
  "greeter_view s_default 0 = Some (''World'', ''Hello'', False) \<and>
   c_string_ok ''World'' \<and> c_string_ok ''Hello'' \<and>
   (5::nat) \<le> length (render_greeting ''Hello'' ''World'') \<and>
   int (length (render_greeting ''Hello'' ''World'')) \<le> INT_MAX \<and>
   (\<exists>buf' s'.
      hello_greeter_greet (Some 0) (Some ''xxxxxxxx'') 5 s_default = Some (13, Some buf', s') \<and>
      c_str buf' = ''Hell'' \<and> buf' ! 4 = NUL \<and> length buf' = 8 \<and> hello_has_error s' \<and>
      hello_get_last_error s' = ''Buffer too small (need 14, have 5)'')"
proof -
  have h: "c_string_ok ''World''" "c_string_ok ''Hello''" "(0::nat) < 5"
    "(5::nat) \<le> length (render_greeting ''Hello'' ''World'')"
    "(5::nat) \<le> length ''xxxxxxxx''"
    "int (length (render_greeting ''Hello'' ''World'')) \<le> INT_MAX"
    by (simp_all add: c_string_ok_def NUL_def render_greeting_def INT_MAX_def)
  have d: "dec_nat 5 = ''5''" "dec_int (wrap_int 14) = ''14''"
    by code_simp+
  show ?thesis
    using h greet_truncated [OF s_default_view h] d
    by (auto simp add: s_default_view render_greeting_def ERROR_BUFFER_SIZE_def)
qed

text \<open>
  C1 as stated fails: the greeter of \<open>s_long\<close> renders to more than \<open>INT_MAX\<close> bytes, the
  capacity 4 is positive and below that length, and the call returns \<open>-1\<close> with the
  message "Formatting failed". Besides, for a greeter with the flag set the buffer
  holds the prefix in upper case: for the default strings and the capacity 5 it is
  "HELL", where the rendering starts with "Hell".
\<close>

theorem greet_truncated_counterexample:
  "greeter_view s_long 0 = Some (''World'', long_greeting, True) \<and>
   (0::nat) < 4 \<and> 4 \<le> length (render_greeting long_greeting ''World'') \<and>
   map_option fst (hello_greeter_greet (Some 0) (Some ''xxxx'') 4 s_long) = Some (- 1) \<and>
   map_option (\<lambda>r. hello_get_last_error (snd (snd r)))
     (hello_greeter_greet (Some 0) (Some ''xxxx'') 4 s_long) = Some ''Formatting failed'' \<and>
   greeter_view s_upper 0 = Some (''World'', ''Hello'', True) \<and>
   map_option (\<lambda>r. map_option c_str (fst (snd r)))
     (hello_greeter_greet (Some 0) (Some ''xxxxxxxx'') 5 s_upper) = Some (Some ''HELL'') \<and>
   take (5 - 1) (render_greeting ''Hello'' ''World'') = ''Hell''"
proof -
  have "c_string_ok ''Formatting failed''" by (simp add: c_string_ok_def NUL_def)
  from get_last_error_set [OF this]
  have long: "map_option fst (hello_greeter_greet (Some 0) (Some ''xxxx'') 4 s_long) = Some (- 1) \<and>
   map_option (\<lambda>r. hello_get_last_error (snd (snd r)))
     (hello_greeter_greet (Some 0) (Some ''xxxx'') 4 s_long) = Some ''Formatting failed''"
    using greet_live [OF s_long_view, of 4 "''xxxx''"]
    by (simp add: Let_def length_long INT_MAX_def render_greeting_def ERROR_BUFFER_SIZE_def)
  have r: "(0::nat) < 5" "int (length (render_greeting ''Hello'' ''World'')) \<le> INT_MAX"
    by (simp_all add: render_greeting_def INT_MAX_def)
  have u: "map toupper ''Hell'' = ''HELL''" by code_simp
  have t: "take (5 - 1) (render_greeting ''Hello'' ''World'') = ''Hell''"
    by (simp add: render_greeting_def)
  from greet_c_str [OF s_upper_view hello_world_ok r, of "''xxxxxxxx''"]
  have upper: "map_option (\<lambda>r. map_option c_str (fst (snd r)))
     (hello_greeter_greet (Some 0) (Some ''xxxxxxxx'') 5 s_upper) = Some (Some ''HELL'')"
    by (auto simp only: t u map_option_case option.case prod.case fst_conv snd_conv if_True)
  have l: "(0::nat) < 4 \<and> 4 \<le> length (render_greeting long_greeting ''World'')"
    by (simp add: render_greeting_def length_long)
  from s_long_view l long s_upper_view upper t show ?thesis by (intro conjI) simp_all
qed

text \<open>
  C2 (amended). Every validation error is detected before anything else is done,
  sets the error channel and yields the sentinel, and changes nothing else (the
  state returned is the given state with the error set: same heap, same allocation
  plan): \<open>hello_greeter_create\<close> given an empty or over-length (256 bytes or more)
  name returns the null handle; \<open>hello_greeter_set_name\<close> given a null, empty or
  over-length name returns false; \<open>set_name\<close>, \<open>get_name\<close> and \<open>greet\<close> given a null
  greeter return false, null and \<open>-1\<close>; \<open>greet\<close> given a null buffer or the capacity
  zero returns \<open>-1\<close> and leaves the buffer alone. A null name in the configuration of
  \<open>hello_greeter_create\<close> is not an error (it stands for "World"), and
  \<open>hello_greeter_destroy\<close> of a null handle sets no error.
\<close>

theorem validation_errors:
  "(\<forall>m. hello_has_error (hello_set_error m s) \<and> heap (hello_set_error m s) = heap s \<and>
        alloc_plan (hello_set_error m s) = alloc_plan s) \<and>
   (cfg_name c = Some [] \<longrightarrow>
      hello_greeter_create (Some c) s = (None, hello_set_error ''Name cannot be empty'' s)) \<and>
   (cfg_name c = Some x \<and> MAX_NAME_LENGTH \<le> length x \<longrightarrow>
      hello_greeter_create (Some c) s =
        (None,
         hello_set_error
           (''Name too long ('' @ dec_nat (length x) @ '' chars, max ''
              @ dec_int (int MAX_NAME_LENGTH - 1) @ '')'') s)) \<and>
   hello_greeter_set_name (Some a) None s =
     Some (False, hello_set_error ''Name cannot be NULL'' s) \<and>
   hello_greeter_set_name (Some a) (Some []) s =
     Some (False, hello_set_error ''Name cannot be empty'' s) \<and>
   (MAX_NAME_LENGTH \<le> length x \<longrightarrow>
      hello_greeter_set_name (Some a) (Some x) s =
        Some (False,
          hello_set_error
            (''Name too long ('' @ dec_nat (length x) @ '' chars, max ''
               @ dec_int (int MAX_NAME_LENGTH - 1) @ '')'') s)) \<and>
   hello_greeter_set_name None nm s = Some (False, hello_set_error ''greeter is NULL'' s) \<and>
   hello_greeter_get_name None s = Some (None, hello_set_error ''greeter is NULL'' s) \<and>
   hello_greeter_greet None buffer n s =
     Some (- 1, buffer, hello_set_error ''greeter is NULL'' s) \<and>
   hello_greeter_greet (Some a) None n s =
     Some (- 1, None, hello_set_error ''Invalid output buffer'' s) \<and>
   hello_greeter_greet (Some a) (Some buf) 0 s =
     Some (- 1, Some buf, hello_set_error ''Invalid output buffer'' s)"
proof -
  have e: "\<forall>m. hello_has_error (hello_set_error m s) \<and> heap (hello_set_error m s) = heap s \<and>
        alloc_plan (hello_set_error m s) = alloc_plan s"
    by (simp add: hello_has_error_def)
  have c1: "cfg_name c = Some [] \<longrightarrow>
      hello_greeter_create (Some c) s = (None, hello_set_error ''Name cannot be empty'' s)"
    by (simp add: hello_greeter_create_def validate_name_result Let_def)
  have c2: "cfg_name c = Some x \<and> MAX_NAME_LENGTH \<le> length x \<longrightarrow>
      hello_greeter_create (Some c) s =
        (None,
         hello_set_error
           (''Name too long ('' @ dec_nat (length x) @ '' chars, max ''
              @ dec_int (int MAX_NAME_LENGTH - 1) @ '')'') s)"
    by (auto simp add: hello_greeter_create_def validate_name_result Let_def MAX_NAME_LENGTH_def)
  have s1: "hello_greeter_set_name (Some a) None s =
     Some (False, hello_set_error ''Name cannot be NULL'' s)"
    and s2: "hello_greeter_set_name (Some a) (Some []) s =
     Some (False, hello_set_error ''Name cannot be empty'' s)"
    by (simp_all add: hello_greeter_set_name_def validate_name_result)
  have s3: "MAX_NAME_LENGTH \<le> length x \<longrightarrow>
      hello_greeter_set_name (Some a) (Some x) s =
        Some (False,
          hello_set_error
            (''Name too long ('' @ dec_nat (length x) @ '' chars, max ''
               @ dec_int (int MAX_NAME_LENGTH - 1) @ '')'') s)"
    by (auto simp add: hello_greeter_set_name_def validate_name_result MAX_NAME_LENGTH_def)
  have n: "hello_greeter_set_name None nm s = Some (False, hello_set_error ''greeter is NULL'' s)"
    "hello_greeter_get_name None s = Some (None, hello_set_error ''greeter is NULL'' s)"
    "hello_greeter_greet None buffer n s =
       Some (- 1, buffer, hello_set_error ''greeter is NULL'' s)"
    by (simp_all add: hello_greeter_set_name_def hello_greeter_get_name_def
        hello_greeter_greet_def)
  have b: "hello_greeter_greet (Some a) None n s =
     Some (- 1, None, hello_set_error ''Invalid output buffer'' s)"
    "hello_greeter_greet (Some a) (Some buf) 0 s =
     Some (- 1, Some buf, hello_set_error ''Invalid output buffer'' s)"
    by (simp_all add: hello_greeter_greet_def)
  from e c1 c2 s1 s2 s3 n b show ?thesis by (intro conjI)
qed

theorem validation_errors_witness:
  "hello_greeter_create
     (Some \<lparr>cfg_name = Some [], cfg_greeting = None, cfg_uppercase = False\<rparr>) s_init =
     (None, hello_set_error ''Name cannot be empty'' s_init) \<and>
   MAX_NAME_LENGTH \<le> length (replicate 256 (CHR ''a'')) \<and>
   hello_greeter_create
     (Some \<lparr>cfg_name = Some (replicate 256 (CHR ''a'')), cfg_greeting = None,
            cfg_uppercase = False\<rparr>) s_init =
     (None, hello_set_error ''Name too long (256 chars, max 255)'' s_init) \<and>
   hello_greeter_set_name (Some 0) (Some (replicate 256 (CHR ''a''))) s_default =
     Some (False, hello_set_error ''Name too long (256 chars, max 255)'' s_default) \<and>
   hello_has_error (hello_set_error ''Name too long (256 chars, max 255)'' s_default) \<and>
   heap (hello_set_error ''Name too long (256 chars, max 255)'' s_default) = heap s_default"
proof -
  have l: "MAX_NAME_LENGTH \<le> length (replicate 256 (CHR ''a''))"
    by (simp add: MAX_NAME_LENGTH_def)
  have d: "dec_nat 256 = ''256''" "dec_int (int MAX_NAME_LENGTH - 1) = ''255''"
    by code_simp+
  note t1 = validation_errors [of s_init
      "\<lparr>cfg_name = Some [], cfg_greeting = None, cfg_uppercase = False\<rparr>"]
  note t2 = validation_errors [of s_init
      "\<lparr>cfg_name = Some (replicate 256 (CHR ''a'')), cfg_greeting = None,
            cfg_uppercase = False\<rparr>" "replicate 256 (CHR ''a'')"]
  note t3 = validation_errors [of s_default _ "replicate 256 (CHR ''a'')" 0]
  have a: "hello_greeter_create
     (Some \<lparr>cfg_name = Some [], cfg_greeting = None, cfg_uppercase = False\<rparr>) s_init =
     (None, hello_set_error ''Name cannot be empty'' s_init)"
    using t1 by simp
  have b: "hello_greeter_create
     (Some \<lparr>cfg_name = Some (replicate 256 (CHR ''a'')), cfg_greeting = None,
            cfg_uppercase = False\<rparr>) s_init =
     (None, hello_set_error ''Name too long (256 chars, max 255)'' s_init)"
    using t2 l d by simp
  have c: "hello_greeter_set_name (Some 0) (Some (replicate 256 (CHR ''a''))) s_default =
     Some (False, hello_set_error ''Name too long (256 chars, max 255)'' s_default)"
    using t3 l d by simp
  have e: "hello_has_error (hello_set_error ''Name too long (256 chars, max 255)'' s_default) \<and>
   heap (hello_set_error ''Name too long (256 chars, max 255)'' s_default) = heap s_default"
    using t3 by blast
  from a l b c e show ?thesis by (intro conjI) simp_all
qed

text \<open>
  C2 as stated fails for \<open>hello_greeter_create\<close> given a null name: it returns a handle
  to a greeter named "World" and sets no error. (Nor does destroying a null handle
  set an error.)
\<close>

theorem validation_errors_counterexample:
  "hello_greeter_create
     (Some \<lparr>cfg_name = None, cfg_greeting = None, cfg_uppercase = False\<rparr>) s_init =
     (Some 0, s_default) \<and>
   \<not> hello_has_error s_default \<and>
   observed_name s_default 0 = Some ''World'' \<and>
   hello_greeter_destroy None s_init = Some s_init \<and>
   \<not> hello_has_error s_init"
  by (simp add: s_default_heap create_defs s_init_def hello_has_error_def observed_name_def
      hello_greeter_get_name_def read_greeter_def read_str_def hello_greeter_destroy_def)

text \<open>
  C3. For every live greeter (a handle to a greeter whose name pointer leads to a
  live string \<open>old\<close>), \<open>hello_greeter_set_name\<close> returns true exactly when the new name
  is non-null, 1 to 255 bytes long and the allocation of its copy succeeds. When it
  returns false the error flag is set, the heap is exactly as before, and
  \<open>hello_greeter_get_name\<close> still returns the old pointer, which still leads to \<open>old\<close>.
  When it returns true the greeter's name pointer is a new block holding the new
  name, the old block is free, and the error channel is as it was. So the old copy is
  released only on the path where the new copy exists.
\<close>

theorem set_name_atomic:
  assumes "read_greeter s a = Some g" and "name g = Some p"
    and "read_str s (Some p) = Some old"
  shows "\<exists>ok s'. hello_greeter_set_name (Some a) nm s = Some (ok, s') \<and>
     ok = ((\<exists>x. nm = Some x \<and> 0 < length x \<and> length x < MAX_NAME_LENGTH) \<and> alloc_succeeds s) \<and>
     (if ok then
        observed_name s' a = nm \<and>
        hello_greeter_get_name (Some a) s' = Some (Some (length (heap s)), s') \<and>
        length (heap s) \<noteq> p \<and>
        cell_at s' p = Free \<and>
        g_has_error s' = g_has_error s \<and> g_error_buffer s' = g_error_buffer s
      else
        hello_has_error s' \<and>
        heap s' = heap s \<and>
        observed_name s' a = Some old \<and>
        hello_greeter_get_name (Some a) s' = Some (Some p, s'))"
proof -
  from read_greeter_SomeD [OF assms(1)] have a: "a < length (heap s)" "heap s ! a = Greeter g"
    by simp_all
  from read_str_SomeD [OF assms(3)] have p: "p < length (heap s)" "heap s ! p = Str old"
    by simp_all
  from a p have ap: "a \<noteq> p" by auto
  have keep: "hello_greeter_get_name (Some a) (hello_set_error m t) =
        Some (Some p, hello_set_error m t) \<and>
      observed_name (hello_set_error m t) a = Some old"
    if "heap t = heap s" for m t
    using that a p assms(2)
    by (simp add: hello_greeter_get_name_def observed_name_def read_greeter_def read_str_def
        cell_at_def)
  show ?thesis
  proof (cases "(\<exists>x. nm = Some x \<and> 0 < length x \<and> length x < MAX_NAME_LENGTH)")
    case False
    then show ?thesis
      using keep [of s]
      by (cases nm)
        (auto simp add: hello_greeter_set_name_def validate_name_result hello_has_error_def)
  next
    case True
    then obtain x where x: "nm = Some x" "0 < length x" "length x < MAX_NAME_LENGTH"
      by blast
    show ?thesis
    proof (cases "alloc_succeeds s")
      case False
      then show ?thesis
        using x keep [of "s\<lparr>alloc_plan := tl (alloc_plan s)\<rparr>"]
        by (auto simp add: hello_greeter_set_name_def validate_name_result safe_strdup_def
            alloc_def Let_def hello_has_error_def)
    next
      case True
      then show ?thesis
        using x a p ap assms(2)
        by (auto simp add: hello_greeter_set_name_def validate_name_result safe_strdup_def
            alloc_def Let_def read_greeter_def cell_at_def c_free_def write_greeter_def
            nth_append hello_greeter_get_name_def observed_name_def read_str_def)
    qed
  qed
qed

theorem set_name_atomic_witness:
  "read_greeter s_default 0 = Some \<lparr>name = Some 1, greeting = Some 2, uppercase = False\<rparr> \<and>
   read_str s_default (Some 1) = Some ''World'' \<and>
   (\<exists>s'. hello_greeter_set_name (Some 0) (Some []) s_default = Some (False, s') \<and>
         hello_has_error s' \<and> heap s' = heap s_default \<and>
         observed_name s' 0 = Some ''World'') \<and>
   (\<exists>s'. hello_greeter_set_name (Some 0) (Some ''NewName'')
           (s_default\<lparr>alloc_plan := [False]\<rparr>) = Some (False, s') \<and>
         hello_has_error s' \<and> heap s' = heap s_default \<and>
         observed_name s' 0 = Some ''World'') \<and>
   (\<exists>s'. hello_greeter_set_name (Some 0) (Some ''NewName'') s_default = Some (True, s') \<and>
         observed_name s' 0 = Some ''NewName'' \<and> cell_at s' 1 = Free \<and>
         \<not> hello_has_error s')"
proof -
  let ?g = "\<lparr>name = Some 1, greeting = Some 2, uppercase = False\<rparr>"
  have g: "read_greeter s_default 0 = Some ?g" "name ?g = Some 1"
    and r: "read_str s_default (Some 1) = Some ''World''"
    by (simp_all add: s_default_heap s_init_def read_greeter_def read_str_def cell_at_def)
  have g': "read_greeter (s_default\<lparr>alloc_plan := [False]\<rparr>) 0 = Some ?g"
    and r': "read_str (s_default\<lparr>alloc_plan := [False]\<rparr>) (Some 1) = Some ''World''"
    by (simp_all add: s_default_heap s_init_def read_greeter_def read_str_def cell_at_def)
  have v: "alloc_succeeds s_default" "\<not> alloc_succeeds (s_default\<lparr>alloc_plan := [False]\<rparr>)"
    "g_has_error s_default = False"
    by (simp_all add: s_default_heap s_init_def alloc_succeeds_def)
  have e: "\<exists>s'. hello_greeter_set_name (Some 0) (Some []) s_default = Some (False, s') \<and>
         hello_has_error s' \<and> heap s' = heap s_default \<and>
         observed_name s' 0 = Some ''World''"
    using set_name_atomic [OF g r, of "Some []"] by auto
  have f: "\<exists>s'. hello_greeter_set_name (Some 0) (Some ''NewName'')
           (s_default\<lparr>alloc_plan := [False]\<rparr>) = Some (False, s') \<and>
         hello_has_error s' \<and> heap s' = heap s_default \<and>
         observed_name s' 0 = Some ''World''"
    using set_name_atomic [OF g' g(2) r', of "Some ''NewName''"] v by auto
  have n: "\<exists>s'. hello_greeter_set_name (Some 0) (Some ''NewName'') s_default = Some (True, s') \<and>
         observed_name s' 0 = Some ''NewName'' \<and> cell_at s' 1 = Free \<and>
         \<not> hello_has_error s'"
    using set_name_atomic [OF g r, of "Some ''NewName''"] v
    by (auto simp add: MAX_NAME_LENGTH_def hello_has_error_def)
  from g(1) r e f n show ?thesis by blast
qed

text \<open>
  C4. With no allocation failure, \<open>hello_greeter_create\<close> without a configuration
  gives a greeter holding the name "World", the greeting "Hello" and the flag off, and
  greeting through it into any buffer with a capacity above 13 returns 13, leaves
  the state as it was and puts "Hello, World!" into the buffer. With a configuration,
  a null name stands for "World" and a null greeting for "Hello", each on its own, and
  the flag is the configuration's. With the name "Test" and the greeting "Hi" the
  buffer receives "Hi, Test!".
\<close>

theorem create_defaults_and_greet:
  assumes "allocs_succeed 3 s"
  shows
    "(\<exists>h s1. hello_greeter_create None s = (Some h, s1) \<and>
        greeter_view s1 h = Some (''World'', ''Hello'', False) \<and>
        (\<forall>buf sz. 13 < sz \<longrightarrow>
           (\<exists>buf'. hello_greeter_greet (Some h) (Some buf) sz s1 = Some (13, Some buf', s1) \<and>
                   c_str buf' = ''Hello, World!''))) \<and>
     (\<forall>c. cfg_name c = None \<or> (\<exists>x. cfg_name c = Some x \<and> 0 < length x \<and> length x < MAX_NAME_LENGTH) \<longrightarrow>
        (\<exists>h s1. hello_greeter_create (Some c) s = (Some h, s1) \<and>
           greeter_view s1 h =
             Some (case cfg_name c of None \<Rightarrow> ''World'' | Some x \<Rightarrow> x,
                   case cfg_greeting c of None \<Rightarrow> ''Hello'' | Some x \<Rightarrow> x,
                   cfg_uppercase c))) \<and>
     (\<exists>h s1. hello_greeter_create
          (Some \<lparr>cfg_name = Some ''Test'', cfg_greeting = Some ''Hi'', cfg_uppercase = False\<rparr>) s
          = (Some h, s1) \<and>
        (\<forall>buf sz. 9 < sz \<longrightarrow>
           (\<exists>buf'. hello_greeter_greet (Some h) (Some buf) sz s1 = Some (9, Some buf', s1) \<and>
                   c_str buf' = ''Hi, Test!'')))"
proof (intro conjI)
  have vn: "0 < length ''World''" "length ''World'' < MAX_NAME_LENGTH"
    by (simp_all add: MAX_NAME_LENGTH_def)
  from create_view [OF assms vn, of HELLO_GREETER_CONFIG_DEFAULT "''Hello''"]
  obtain h s1 where
    c: "hello_greeter_create None s = (Some h, s1)" and
    v: "greeter_view s1 h = Some (''World'', ''Hello'', False)"
    by (auto simp add: create_None HELLO_GREETER_CONFIG_DEFAULT_def)
  have "\<exists>buf'. hello_greeter_greet (Some h) (Some buf) sz s1 = Some (13, Some buf', s1) \<and>
                   c_str buf' = ''Hello, World!''" if "13 < sz" for buf sz
    using greet_fits [OF v hello_world_ok, of sz buf] that
    by (simp add: render_greeting_def INT_MAX_def)
  with c v show "\<exists>h s1. hello_greeter_create None s = (Some h, s1) \<and>
        greeter_view s1 h = Some (''World'', ''Hello'', False) \<and>
        (\<forall>buf sz. 13 < sz \<longrightarrow>
           (\<exists>buf'. hello_greeter_greet (Some h) (Some buf) sz s1 = Some (13, Some buf', s1) \<and>
                   c_str buf' = ''Hello, World!''))"
    by blast
next
  show "\<forall>c. cfg_name c = None \<or> (\<exists>x. cfg_name c = Some x \<and> 0 < length x \<and> length x < MAX_NAME_LENGTH) \<longrightarrow>
        (\<exists>h s1. hello_greeter_create (Some c) s = (Some h, s1) \<and>
           greeter_view s1 h =
             Some (case cfg_name c of None \<Rightarrow> ''World'' | Some x \<Rightarrow> x,
                   case cfg_greeting c of None \<Rightarrow> ''Hello'' | Some x \<Rightarrow> x,
                   cfg_uppercase c))"
  proof (intro allI impI)
    fix c :: Hello_GreeterConfig
    assume n: "cfg_name c = None \<or> (\<exists>x. cfg_name c = Some x \<and> 0 < length x \<and> length x < MAX_NAME_LENGTH)"
    let ?nm = "case cfg_name c of None \<Rightarrow> ''World'' | Some x \<Rightarrow> x"
    have vn: "0 < length ?nm" "length ?nm < MAX_NAME_LENGTH"
      using n by (auto simp add: MAX_NAME_LENGTH_def)
    from create_view [OF assms vn refl refl]
    show "\<exists>h s1. hello_greeter_create (Some c) s = (Some h, s1) \<and>
           greeter_view s1 h =
             Some (?nm, case cfg_greeting c of None \<Rightarrow> ''Hello'' | Some x \<Rightarrow> x,
                   cfg_uppercase c)"
      by blast
  qed
next
  have vn: "0 < length ''Test''" "length ''Test'' < MAX_NAME_LENGTH"
    by (simp_all add: MAX_NAME_LENGTH_def)
  have ok: "c_string_ok ''Test''" "c_string_ok ''Hi''"
    by (simp_all add: c_string_ok_def NUL_def)
  from create_view [OF assms vn,
      of "\<lparr>cfg_name = Some ''Test'', cfg_greeting = Some ''Hi'', cfg_uppercase = False\<rparr>" "''Hi''"]
  obtain h s1 where
    c: "hello_greeter_create
          (Some \<lparr>cfg_name = Some ''Test'', cfg_greeting = Some ''Hi'', cfg_uppercase = False\<rparr>) s
          = (Some h, s1)" and
    v: "greeter_view s1 h = Some (''Test'', ''Hi'', False)"
    by auto
  have "\<exists>buf'. hello_greeter_greet (Some h) (Some buf) sz s1 = Some (9, Some buf', s1) \<and>
                   c_str buf' = ''Hi, Test!''" if "9 < sz" for buf sz
    using greet_fits [OF v ok, of sz buf] that
    by (simp add: render_greeting_def INT_MAX_def)
  with c show "\<exists>h s1. hello_greeter_create
          (Some \<lparr>cfg_name = Some ''Test'', cfg_greeting = Some ''Hi'', cfg_uppercase = False\<rparr>) s
          = (Some h, s1) \<and>
        (\<forall>buf sz. 9 < sz \<longrightarrow>
           (\<exists>buf'. hello_greeter_greet (Some h) (Some buf) sz s1 = Some (9, Some buf', s1) \<and>
                   c_str buf' = ''Hi, Test!''))"
    by blast
qed

theorem create_defaults_and_greet_witness:
  "allocs_succeed 3 s_init \<and>
   (\<exists>h s1 buf'. hello_greeter_create None s_init = (Some h, s1) \<and>
      greeter_view s1 h = Some (''World'', ''Hello'', False) \<and>
      hello_greeter_greet (Some h) (Some (replicate 128 (CHR ''x''))) 128 s1 =
        Some (13, Some buf', s1) \<and>
      c_str buf' = ''Hello, World!'') \<and>
   (\<exists>h s1. hello_greeter_create
        (Some \<lparr>cfg_name = None, cfg_greeting = Some ''Hi'', cfg_uppercase = True\<rparr>) s_init
        = (Some h, s1) \<and>
      greeter_view s1 h = Some (''World'', ''Hi'', True)) \<and>
   (\<exists>h s1 buf'. hello_greeter_create
        (Some \<lparr>cfg_name = Some ''Test'', cfg_greeting = Some ''Hi'', cfg_uppercase = False\<rparr>) s_init
        = (Some h, s1) \<and>
      hello_greeter_greet (Some h) (Some (replicate 128 (CHR ''x''))) 128 s1 =
        Some (9, Some buf', s1) \<and>
      c_str buf' = ''Hi, Test!'')"
proof -
  have h: "allocs_succeed 3 s_init"
    by (simp add: allocs_succeed_def s_init_def)
  note t = create_defaults_and_greet [OF h]
  have a: "\<exists>h s1 buf'. hello_greeter_create None s_init = (Some h, s1) \<and>
      greeter_view s1 h = Some (''World'', ''Hello'', False) \<and>
      hello_greeter_greet (Some h) (Some (replicate 128 (CHR ''x''))) 128 s1 =
        Some (13, Some buf', s1) \<and>
      c_str buf' = ''Hello, World!''"
  proof -
    from t obtain h0 s1 where
      c: "hello_greeter_create None s_init = (Some h0, s1)" and
      v: "greeter_view s1 h0 = Some (''World'', ''Hello'', False)" and
      g: "\<forall>buf sz. 13 < sz \<longrightarrow>
           (\<exists>buf'. hello_greeter_greet (Some h0) (Some buf) sz s1 = Some (13, Some buf', s1) \<and>
                   c_str buf' = ''Hello, World!'')"
      by blast
    have "(13::nat) < 128" by simp
    with g obtain buf' where
      "hello_greeter_greet (Some h0) (Some (replicate 128 (CHR ''x''))) 128 s1 =
         Some (13, Some buf', s1) \<and> c_str buf' = ''Hello, World!''"
      by blast
    with c v show ?thesis by blast
  qed
  have b: "\<exists>h s1. hello_greeter_create
        (Some \<lparr>cfg_name = None, cfg_greeting = Some ''Hi'', cfg_uppercase = True\<rparr>) s_init
        = (Some h, s1) \<and>
      greeter_view s1 h = Some (''World'', ''Hi'', True)"
  proof -
    from t have "\<forall>c. cfg_name c = None \<or> (\<exists>x. cfg_name c = Some x \<and> 0 < length x \<and> length x < MAX_NAME_LENGTH) \<longrightarrow>
        (\<exists>h s1. hello_greeter_create (Some c) s_init = (Some h, s1) \<and>
           greeter_view s1 h =
             Some (case cfg_name c of None \<Rightarrow> ''World'' | Some x \<Rightarrow> x,
                   case cfg_greeting c of None \<Rightarrow> ''Hello'' | Some x \<Rightarrow> x,
                   cfg_uppercase c))"
      by blast
    from this [rule_format,
        of "\<lparr>cfg_name = None, cfg_greeting = Some ''Hi'', cfg_uppercase = True\<rparr>"]
    show ?thesis by simp
  qed
  have c: "\<exists>h s1 buf'. hello_greeter_create
        (Some \<lparr>cfg_name = Some ''Test'', cfg_greeting = Some ''Hi'', cfg_uppercase = False\<rparr>) s_init
        = (Some h, s1) \<and>
      hello_greeter_greet (Some h) (Some (replicate 128 (CHR ''x''))) 128 s1 =
        Some (9, Some buf', s1) \<and>
      c_str buf' = ''Hi, Test!''"
  proof -
    from t obtain h0 s1 where
      c: "hello_greeter_create
        (Some \<lparr>cfg_name = Some ''Test'', cfg_greeting = Some ''Hi'', cfg_uppercase = False\<rparr>) s_init
        = (Some h0, s1)" and
      g: "\<forall>buf sz. 9 < sz \<longrightarrow>
           (\<exists>buf'. hello_greeter_greet (Some h0) (Some buf) sz s1 = Some (9, Some buf', s1) \<and>
                   c_str buf' = ''Hi, Test!'')"
      by blast
    have "(9::nat) < 128" by simp
    with g obtain buf' where
      "hello_greeter_greet (Some h0) (Some (replicate 128 (CHR ''x''))) 128 s1 =
         Some (9, Some buf', s1) \<and> c_str buf' = ''Hi, Test!''"
      by blast
    with c show ?thesis by blast
  qed
  from h a b c show ?thesis by blast
qed

text \<open>
  C5 (amended). For every live greeter with the flag \<^verbatim>\<open>uppercase\<close> set, every buffer of
  at least \<open>sz\<close> bytes and every capacity \<open>sz > 0\<close>, when the rendering is at most
  \<open>INT_MAX\<close> bytes long: after \<open>hello_greeter_greet\<close> the buffer holds the upper-cased
  first \<open>sz - 1\<close> bytes of the rendering (all of it when it fits, a truncated prefix
  otherwise), the array keeps its size, and the returned value is the full length,
  the same value that a greeter with the same strings and the flag off returns. For
  the default name and greeting and a capacity above 13 the buffer holds
  "HELLO, WORLD!".
\<close>

theorem greet_uppercase:
  assumes "greeter_view s a = Some (nm, gr, True)"
    and "c_string_ok nm" and "c_string_ok gr"
    and "0 < sz" and "sz \<le> length buf"
    and "int (length (render_greeting gr nm)) \<le> INT_MAX"
  shows "\<exists>buf' s'.
      hello_greeter_greet (Some a) (Some buf) sz s =
        Some (int (length (render_greeting gr nm)), Some buf', s') \<and>
      c_str buf' = map toupper (take (sz - 1) (render_greeting gr nm)) \<and>
      length buf' = length buf \<and>
      (nm = ''World'' \<and> gr = ''Hello'' \<and> 13 < sz \<longrightarrow> c_str buf' = ''HELLO, WORLD!'') \<and>
      (\<forall>s2 a2. greeter_view s2 a2 = Some (nm, gr, False) \<longrightarrow>
         map_option fst (hello_greeter_greet (Some a2) (Some buf) sz s2) =
           Some (int (length (render_greeting gr nm))))"
proof -
  from greet_c_str [OF assms(1,2,3,4,6), of buf] assms(5)
  obtain buf' s' where
    call: "hello_greeter_greet (Some a) (Some buf) sz s =
        Some (int (length (render_greeting gr nm)), Some buf', s')"
    and str: "c_str buf' = map toupper (take (sz - 1) (render_greeting gr nm))"
    and len: "length buf' = length buf"
    by auto
  have dflt: "nm = ''World'' \<and> gr = ''Hello'' \<and> 13 < sz \<longrightarrow> c_str buf' = ''HELLO, WORLD!''"
  proof
    assume d: "nm = ''World'' \<and> gr = ''Hello'' \<and> 13 < sz"
    from d have l: "length (render_greeting gr nm) = 13"
      by (simp add: render_greeting_def)
    from d have "13 \<le> sz - 1" by linarith
    with l have "length (render_greeting gr nm) \<le> sz - 1" by linarith
    then have "take (sz - 1) (render_greeting gr nm) = render_greeting gr nm"
      by (rule take_all)
    then have "take (sz - 1) (render_greeting gr nm) = ''Hello, World!''"
      using d by (simp add: render_greeting_def)
    then show "c_str buf' = ''HELLO, WORLD!''"
      by (simp only: str upper_hello_world)
  qed
  have other: "\<forall>s2 a2. greeter_view s2 a2 = Some (nm, gr, False) \<longrightarrow>
         map_option fst (hello_greeter_greet (Some a2) (Some buf) sz s2) =
           Some (int (length (render_greeting gr nm)))"
  proof (intro allI impI)
    fix s2 a2
    assume v: "greeter_view s2 a2 = Some (nm, gr, False)"
    from greet_c_str [OF v assms(2,3,4,6), of buf]
    show "map_option fst (hello_greeter_greet (Some a2) (Some buf) sz s2) =
           Some (int (length (render_greeting gr nm)))"
      by auto
  qed
  show ?thesis using call str len dflt other by blast
qed

theorem greet_uppercase_witness:
  "greeter_view s_upper 0 = Some (''World'', ''Hello'', True) \<and>
   c_string_ok ''World'' \<and> c_string_ok ''Hello'' \<and>
   int (length (render_greeting ''Hello'' ''World'')) \<le> INT_MAX \<and>
   (\<exists>buf' s'.
      hello_greeter_greet (Some 0) (Some (replicate 128 (CHR ''x''))) 128 s_upper =
        Some (13, Some buf', s') \<and>
      c_str buf' = ''HELLO, WORLD!'' \<and> length buf' = 128) \<and>
   (\<exists>buf' s'.
      hello_greeter_greet (Some 0) (Some (replicate 128 (CHR ''x''))) 6 s_upper =
        Some (13, Some buf', s') \<and>
      c_str buf' = ''HELLO'' \<and> length buf' = 128)"
proof -
  have h: "(0::nat) < 128" "128 \<le> length (replicate 128 (CHR ''x''))"
    "int (length (render_greeting ''Hello'' ''World'')) \<le> INT_MAX"
    by (simp_all add: render_greeting_def INT_MAX_def)
  have h6: "(0::nat) < 6" "6 \<le> length (replicate 128 (CHR ''x''))"
    by simp_all
  have u: "map toupper ''Hello'' = ''HELLO''" by code_simp
  have full: "\<exists>buf' s'.
      hello_greeter_greet (Some 0) (Some (replicate 128 (CHR ''x''))) 128 s_upper =
        Some (13, Some buf', s') \<and>
      c_str buf' = ''HELLO, WORLD!'' \<and> length buf' = 128"
    using greet_uppercase [OF s_upper_view hello_world_ok h]
    by (auto simp add: render_greeting_def)
  have trunc: "\<exists>buf' s'.
      hello_greeter_greet (Some 0) (Some (replicate 128 (CHR ''x''))) 6 s_upper =
        Some (13, Some buf', s') \<and>
      c_str buf' = ''HELLO'' \<and> length buf' = 128"
    using greet_uppercase [OF s_upper_view hello_world_ok h6 h(3)] u
    by (auto simp add: render_greeting_def)
  show ?thesis
    using s_upper_view hello_world_ok h(3) full trunc by blast
qed

text \<open>
  C5 as stated fails: for the greeter of \<open>s_long\<close> (flag set, rendering longer than
  \<open>INT_MAX\<close>) the formatting call fails, the function returns \<open>-1\<close> before
  \<open>str_to_upper\<close> is reached, and the buffer holds "a", not "A".
\<close>

theorem greet_uppercase_counterexample:
  "greeter_view s_long 0 = Some (''World'', long_greeting, True) \<and>
   map_option (\<lambda>r. (fst r, map_option c_str (fst (snd r))))
     (hello_greeter_greet (Some 0) (Some ''xxxx'') 2 s_long) = Some (- 1, Some ''a'') \<and>
   map toupper (take (2 - 1) (render_greeting long_greeting ''World'')) = ''A''"
proof -
  have t: "take (Suc 0) long_greeting = ''a''" by (simp add: long_greeting_def)
  have u: "toupper (CHR ''a'') = CHR ''A''" by code_simp
  show ?thesis
    using greet_live [OF s_long_view, of 2 "''xxxx''"] t u
    by (simp add: s_long_view Let_def length_long INT_MAX_def render_greeting_def
        c_snprintf_def store_bytes_def c_str_def NUL_def)
qed

text \<open>
  C6. For every greeter that \<open>hello_greeter_create\<close> returns (from any state, any
  configuration, any allocation plan: when it returns no handle there is no greeter),
  and for every sequence of \<open>set_name\<close>, \<open>greet\<close> and \<open>get_name\<close> calls on that handle,
  with any arguments: every call returns, and after the sequence the name read
  through \<open>hello_greeter_get_name\<close> is not empty and shorter than \<open>MAX_NAME_LENGTH\<close>
  (256). The empty sequence is the greeter as created; a \<open>set_name\<close> that fails leaves
  the name as it was and one that succeeds stores a validated name.
\<close>

theorem name_invariant_holds:
  assumes "hello_greeter_create config s = (Some a, s0)"
  shows "\<exists>s'. run_operations a ops s0 = Some s' \<and> name_invariant s' a"
proof -
  have "well_formed_greeter s0 a" using assms by (rule create_well_formed)
  from run_operations_well_formed [OF this, of ops]
  show ?thesis by (blast intro: well_formed_name_invariant)
qed

theorem name_invariant_holds_witness:
  "hello_greeter_create None s_init = (Some 0, s_default) \<and>
   (\<exists>s'. run_operations 0
           [Set_name (Some ''NewName''), Greet (Some ''xxxxxxxx'') 5, Set_name (Some []),
            Set_name None, Get_name] s_default = Some s' \<and>
         name_invariant s' 0 \<and> observed_name s' 0 = Some ''NewName'')"
proof -
  have c: "hello_greeter_create None s_init = (Some 0, s_default)"
    by (simp add: s_default_heap create_default)
  have o: "map_option (\<lambda>s'. observed_name s' 0)
      (run_operations 0
           [Set_name (Some ''NewName''), Greet (Some ''xxxxxxxx'') 5, Set_name (Some []),
            Set_name None, Get_name] s_default) = Some (Some ''NewName'')"
    by code_simp
  from name_invariant_holds [OF c,
      of "[Set_name (Some ''NewName''), Greet (Some ''xxxxxxxx'') 5, Set_name (Some []),
            Set_name None, Get_name]"] c o
  show ?thesis by auto
qed

text \<open>
  C7. From any state, after \<open>hello_clear_error\<close> the flag is false and
  \<open>hello_get_last_error\<close> returns the empty string (the buffer holds the empty string
  too, and the heap is untouched). In any state \<open>hello_get_last_error\<close> returns the
  string in the buffer when the flag is set and the empty string when it is not; after
  \<open>hello_set_error\<close> that string is the message, cut to \<open>ERROR_BUFFER_SIZE - 1\<close> bytes.
  \<open>hello_get_last_error\<close> and \<open>hello_has_error\<close> only read the state: they are
  functions of it and return no new state.
\<close>

theorem clear_error_resets:
  "hello_has_error (hello_clear_error s) = False \<and>
   hello_get_last_error (hello_clear_error s) = [] \<and>
   c_str (g_error_buffer (hello_clear_error s)) = [] \<and>
   heap (hello_clear_error s) = heap s \<and>
   hello_get_last_error s = (if hello_has_error s then c_str (g_error_buffer s) else []) \<and>
   (c_string_ok m \<longrightarrow>
      hello_has_error (hello_set_error m s) \<and>
      hello_get_last_error (hello_set_error m s) = take (ERROR_BUFFER_SIZE - 1) m)"
  by (simp add: hello_has_error_def hello_get_last_error_def hello_clear_error_def c_str_clear
      get_last_error_set [unfolded hello_get_last_error_def, simplified])

theorem clear_error_resets_witness:
  "c_string_ok ''Some error'' \<and>
   hello_has_error (hello_set_error ''Some error'' s_init) \<and>
   hello_get_last_error (hello_set_error ''Some error'' s_init) = ''Some error'' \<and>
   hello_has_error (hello_clear_error (hello_set_error ''Some error'' s_init)) = False \<and>
   hello_get_last_error (hello_clear_error (hello_set_error ''Some error'' s_init)) = []"
proof -
  have h: "c_string_ok ''Some error''" by (simp add: c_string_ok_def NUL_def)
  show ?thesis
    using h clear_error_resets [of "hello_set_error ''Some error'' s_init" "''Some error''"]
      clear_error_resets [of s_init "''Some error''"]
    by (simp add: ERROR_BUFFER_SIZE_def)
qed

text \<open>
  C8. \<open>hello_greeter_create\<close> puts no bound on the greeting: for every greeting \<open>gr\<close>,
  of any length, with a name of 1 to 255 bytes and no allocation failure, it returns a
  handle to a greeter that holds the name and the whole greeting in two new heap
  blocks of its own; the heap that existed is unchanged and the error channel is not
  touched. \<open>MAX_GREETING_LENGTH\<close> plays no part.
\<close>

theorem create_accepts_any_greeting:
  assumes "allocs_succeed 3 s" and "0 < length nm" and "length nm < MAX_NAME_LENGTH"
  shows "\<exists>h s'.
      hello_greeter_create
        (Some \<lparr>cfg_name = Some nm, cfg_greeting = Some gr, cfg_uppercase = up\<rparr>) s = (Some h, s') \<and>
      greeter_view s' h = Some (nm, gr, up) \<and>
      heap s' = heap s @
        [Greeter \<lparr>name = Some (h + 1), greeting = Some (h + 2), uppercase = up\<rparr>,
         Str nm, Str gr] \<and>
      g_has_error s' = g_has_error s \<and> g_error_buffer s' = g_error_buffer s"
  using create_view [OF assms, of "\<lparr>cfg_name = Some nm, cfg_greeting = Some gr, cfg_uppercase = up\<rparr>" gr]
  by simp

theorem create_accepts_any_greeting_witness:
  "allocs_succeed 3 s_init \<and> 0 < length ''Test'' \<and> length ''Test'' < MAX_NAME_LENGTH \<and>
   MAX_GREETING_LENGTH < length (replicate 100 (CHR ''g'')) \<and>
   (\<exists>h s'.
      hello_greeter_create
        (Some \<lparr>cfg_name = Some ''Test'', cfg_greeting = Some (replicate 100 (CHR ''g'')),
               cfg_uppercase = False\<rparr>) s_init = (Some h, s') \<and>
      greeter_view s' h = Some (''Test'', replicate 100 (CHR ''g''), False))"
proof -
  have h: "allocs_succeed 3 s_init" "0 < length ''Test''" "length ''Test'' < MAX_NAME_LENGTH"
    by (simp_all add: allocs_succeed_def s_init_def MAX_NAME_LENGTH_def)
  have "MAX_GREETING_LENGTH < length (replicate 100 (CHR ''g''))"
    by (simp add: MAX_GREETING_LENGTH_def)
  then show ?thesis
    using h create_accepts_any_greeting [OF h, of "replicate 100 (CHR ''g'')" False]
    by blast
qed

text \<open>
  C9 (amended). For every live greeter holding greeting \<open>gr\<close> and name \<open>nm\<close>, every
  non-null buffer and every capacity greater than zero, \<open>hello_greeter_greet\<close> returns
  \<open>length gr + length nm + 3\<close>, whatever the capacity, provided that this number is at
  most \<open>INT_MAX\<close>; when it is larger, \<^verbatim>\<open>snprintf\<close> fails and the call returns \<open>-1\<close>.
\<close>

theorem greet_returns_required_length:
  assumes "greeter_view s a = Some (nm, gr, up)" and "0 < sz"
  shows "map_option fst (hello_greeter_greet (Some a) (Some buf) sz s) =
         Some (if int (length gr) + int (length nm) + 3 \<le> INT_MAX
               then int (length gr) + int (length nm) + 3 else - 1)"
  using greet_live [OF assms, of buf] by (simp add: Let_def render_greeting_def)

theorem greet_returns_required_length_witness:
  "greeter_view s_default 0 = Some (''World'', ''Hello'', False) \<and> (0::nat) < 20 \<and>
   map_option fst (hello_greeter_greet (Some 0) (Some (replicate 20 (CHR ''x''))) 20 s_default)
     = Some 13"
  using greet_returns_required_length [OF s_default_view, of 20 "replicate 20 (CHR ''x'')"]
  by (simp add: s_default_view INT_MAX_def)

text \<open>
  C9 as stated fails: the greeter of \<open>s_long\<close> holds a greeting of \<open>2 ^ 31\<close> bytes and
  the name "World", so the claimed value is 2147483656; the call returns \<open>-1\<close>.
\<close>

theorem greet_required_length_counterexample:
  "greeter_view s_long 0 = Some (''World'', long_greeting, True) \<and>
   map_option fst (hello_greeter_greet (Some 0) (Some ''xxxx'') 4 s_long) = Some (- 1) \<and>
   int (length long_greeting) + int (length ''World'') + 3 = 2147483656"
  using greet_live [OF s_long_view, of 4 "''xxxx''"]
  by (simp add: s_long_view Let_def length_long INT_MAX_def render_greeting_def)

text \<open>
  C10 (amended). Successful operations leave the error flag and the error buffer
  exactly as they were: a \<open>hello_greeter_create\<close> that returns a handle, a
  \<open>hello_greeter_set_name\<close> that returns true, a \<open>hello_greeter_get_name\<close> on a non-null
  greeter, a \<open>hello_greeter_destroy\<close> of any handle, and a \<open>hello_greeter_greet\<close> that
  returns a length below the capacity, which is what it does on a live greeter
  whenever the required length is below the capacity and at most \<open>INT_MAX\<close> (these
  two calls leave the whole state as it was). So an error that is set stays until a
  later failure or \<open>hello_clear_error\<close>.
\<close>

theorem success_keeps_error_channel:
  "(hello_greeter_create config s = (Some h, s1) \<longrightarrow>
      g_has_error s1 = g_has_error s \<and> g_error_buffer s1 = g_error_buffer s) \<and>
   (hello_greeter_set_name handle nm s = Some (True, s2) \<longrightarrow>
      g_has_error s2 = g_has_error s \<and> g_error_buffer s2 = g_error_buffer s) \<and>
   (hello_greeter_get_name (Some a) s = Some (p, s3) \<longrightarrow> s3 = s) \<and>
   (hello_greeter_destroy handle s = Some s4 \<longrightarrow>
      g_has_error s4 = g_has_error s \<and> g_error_buffer s4 = g_error_buffer s) \<and>
   (hello_greeter_greet handle buffer n s = Some (r, b, s5) \<and> 0 \<le> r \<and> r < int n \<longrightarrow>
      s5 = s) \<and>
   (greeter_view s a = Some (nm', gr, up) \<and> length (render_greeting gr nm') < n \<and>
    int (length (render_greeting gr nm')) \<le> INT_MAX \<longrightarrow>
      (\<exists>b'. hello_greeter_greet (Some a) (Some buf) n s =
              Some (int (length (render_greeting gr nm')), b', s)))"
proof -
  have g: "\<exists>b'. hello_greeter_greet (Some a) (Some buf) n s =
              Some (int (length (render_greeting gr nm')), b', s)"
    if v: "greeter_view s a = Some (nm', gr, up)"
      and l: "length (render_greeting gr nm') < n"
      and i: "int (length (render_greeting gr nm')) \<le> INT_MAX"
  proof -
    from l have "0 < n" by linarith
    from greet_live [OF v this, of buf] l i show ?thesis by (simp add: Let_def)
  qed
  show ?thesis
    using create_keeps_channel [of config s h s1] set_name_keeps_channel [of handle nm s s2]
      get_name_keeps_state [of a s p s3] destroy_keeps_channel [of handle s s4]
      greet_fitting_keeps_state [of handle buffer n s r b s5] g
    by blast
qed

theorem success_keeps_error_channel_witness:
  "(\<exists>h s1. hello_greeter_create None (hello_set_error ''Some error'' s_init) = (Some h, s1) \<and>
      hello_has_error s1 \<and> hello_get_last_error s1 = ''Some error'') \<and>
   (\<exists>s2. hello_greeter_set_name (Some 0) (Some ''NewName'') s_default = Some (True, s2) \<and>
      \<not> hello_has_error s2) \<and>
   (\<exists>b'. hello_greeter_greet (Some 0) (Some (replicate 128 (CHR ''x''))) 128 s_default =
      Some (13, b', s_default)) \<and>
   hello_greeter_destroy None s_init = Some s_init"
proof -
  let ?e = "hello_set_error ''Some error'' s_init"
  have al: "allocs_succeed 3 ?e" by (simp add: allocs_succeed_def s_init_def)
  have vn: "0 < length ''World''" "length ''World'' < MAX_NAME_LENGTH"
    by (simp_all add: MAX_NAME_LENGTH_def)
  from create_view [OF al vn, of HELLO_GREETER_CONFIG_DEFAULT "''Hello''"]
  obtain h s1 where c: "hello_greeter_create None ?e = (Some h, s1)"
    by (auto simp add: create_None HELLO_GREETER_CONFIG_DEFAULT_def)
  have ok: "c_string_ok ''Some error''" by (simp add: c_string_ok_def NUL_def)
  from success_keeps_error_channel [of None ?e h s1] c
  have k: "g_has_error s1 = g_has_error ?e" "g_error_buffer s1 = g_error_buffer ?e"
    by simp_all
  have "hello_get_last_error s1 = hello_get_last_error ?e"
    by (simp add: hello_get_last_error_def k)
  with get_last_error_set [OF ok, of s_init] k(1)
  have w1: "hello_has_error s1 \<and> hello_get_last_error s1 = ''Some error''"
    by (simp add: hello_has_error_def ERROR_BUFFER_SIZE_def)
  have "\<exists>s2. hello_greeter_set_name (Some 0) (Some ''NewName'') s_default = Some (True, s2)"
    by (simp add: s_default_heap s_init_def hello_greeter_set_name_def validate_name_result
        MAX_NAME_LENGTH_def safe_strdup_def alloc_def alloc_succeeds_def Let_def
        read_greeter_def cell_at_def)
  then obtain s2 where
    s2: "hello_greeter_set_name (Some 0) (Some ''NewName'') s_default = Some (True, s2)"
    by blast
  from success_keeps_error_channel [of _ s_default _ _ "Some 0" "Some ''NewName''" s2] s2
  have "g_has_error s2 = g_has_error s_default" by simp
  then have w2: "\<not> hello_has_error s2"
    by (simp add: hello_has_error_def s_default_heap s_init_def)
  have r: "length (render_greeting ''Hello'' ''World'') < 128"
    "int (length (render_greeting ''Hello'' ''World'')) \<le> INT_MAX"
    by (simp_all add: render_greeting_def INT_MAX_def)
  from success_keeps_error_channel
    [where s = s_default and a = 0 and n = 128 and nm' = "''World''" and gr = "''Hello''"
      and up = False and buf = "replicate 128 (CHR ''x'')"]
    s_default_view r
  have w3: "\<exists>b'. hello_greeter_greet (Some 0) (Some (replicate 128 (CHR ''x''))) 128 s_default =
      Some (13, b', s_default)"
    by (simp add: render_greeting_def)
  have w4: "hello_greeter_destroy None s_init = Some s_init"
    by (simp add: hello_greeter_destroy_def)
  from c w1 s2 w2 w3 w4 show ?thesis by blast
qed

text \<open>
  C10 as stated fails for \<open>hello_greeter_greet\<close>: the greeter of \<open>s_long\<close> needs 2147483656
  bytes, less than the capacity 2147483700, and no error is set before the call; the
  call returns \<open>-1\<close> and sets the error flag.
\<close>

theorem success_keeps_error_channel_counterexample:
  "greeter_view s_long 0 = Some (''World'', long_greeting, True) \<and>
   length (render_greeting long_greeting ''World'') < 2147483700 \<and>
   \<not> hello_has_error s_long \<and>
   map_option (\<lambda>r. (fst r, hello_has_error (snd (snd r))))
     (hello_greeter_greet (Some 0) (Some (replicate 2147483700 (CHR ''x''))) 2147483700 s_long)
     = Some (- 1, True)"
  using greet_live [OF s_long_view, of 2147483700 "replicate 2147483700 (CHR ''x'')"]
  by (simp add: s_long_view Let_def length_long INT_MAX_def render_greeting_def
      hello_has_error_def s_long_no_error)

end
